theory Spec2Isabelle
  imports Main "HOL-Library.Word" "HOL-Library.AList"
begin

section \<open>Plugin framework: host, registry and call routing\<close>

text \<open>
  A shallow embedding of the plugin host (host.go), its inbound RPC service
  (the hostService file), the registry and configuration types (types.go) and the
  plugin's inbound call handler (plugin.go).

  Conventions of the embedding.
  \<^item> A Go struct is a record with the Go field names. Where two structs share a field
    name, the fields of the protocol messages and of the smaller structs carry a short
    prefix (\<open>creq_\<close> for CallRequest, \<open>cresp_\<close> for CallResponse, and so on).
  \<^item> A \<open>*PluginInfo\<close> is an address (a natural number) into the store \<open>objects\<close>
    of the host state; the registry maps plugin IDs to addresses, as the Go map holds
    pointers. Every write through a pointer is a store update at that address.
  \<^item> A Go \<open>error\<close> is the text of \<open>err.Error()\<close>; a pair \<open>(value, error)\<close> with a
    \<open>nil\<close> error is \<open>None\<close> in the error position. Chinese message texts are
    written as their UTF-8 bytes.
  \<^item> A run-time panic (nil dereference, index out of range) is the outcome \<open>Panics\<close>;
    a loop that does not end is the outcome \<open>Hangs\<close>.
  \<^item> A Go \<open>int\<close> is an integer; where the code can reach the 64-bit wrap-around (the
    product of durations, \<open>port++\<close>) the wrap-around is written out.
  \<^item> What the operating system, the network and the remote peer answer is passed to the
    operation as an argument: the result of \<open>cmd.Start()\<close>, of \<open>net.Listen\<close>, of
    \<open>grpc.Dial\<close>, of a remote call, and the reading of the clock \<open>time.Now()\<close>.
  \<^item> The lines written with \<open>log.Printf\<close>, the processes started with
    \<open>cmd.Start()\<close>, the processes killed and the connections closed are appended to
    lists of the state, so that a theorem can say what an operation did.
  \<^item> A goroutine started with \<open>go\<close> is recorded as a pending task; its body runs as
    a later step of its own. Each operation is one atomic step.
\<close>

subsection \<open>Formatting\<close>

definition digit :: "nat \<Rightarrow> char" where
  "digit d = ''0123456789'' ! (d mod 10)"

fun digits :: "nat \<Rightarrow> string" where
  "digits n = (if n < 10 then [digit n] else digits (n div 10) @ [digit (n mod 10)])"

text \<open>The verb \<open>%d\<close> of package fmt on an integer.\<close>

definition itoa :: "int \<Rightarrow> string" where
  "itoa i = (if i < 0 then ''-'' @ digits (nat (- i)) else digits (nat i))"

subsection \<open>Time (package time)\<close>

text \<open>
  A \<open>time.Time\<close> is the number of nanoseconds since the Unix epoch, unbounded (Go's
  range of instants is wider than 64 bits of nanoseconds). A \<open>time.Duration\<close> is an
  \<open>int64\<close> count of nanoseconds: its product wraps around, its comparison is signed,
  and \<open>Time.Sub\<close> saturates at the least and the greatest duration.
\<close>

type_synonym Time = int
type_synonym Duration = "64 word"

definition Second :: Duration where
  "Second = 1000000000"

definition minDuration :: int where
  "minDuration = - (2 ^ 63)"

definition maxDuration :: int where
  "maxDuration = 2 ^ 63 - 1"

definition Sub :: "Time \<Rightarrow> Time \<Rightarrow> Duration" where
  "Sub t u =
     (if t - u > maxDuration then word_of_int maxDuration
      else if t - u < minDuration then word_of_int minDuration
      else word_of_int (t - u))"

text \<open>\<open>Time.Unix()\<close>: whole seconds since the epoch.\<close>

definition Unix :: "Time \<Rightarrow> int" where
  "Unix t = t div 1000000000"

text \<open>\<open>Time.UnixNano()\<close>: the nanoseconds as an \<open>int64\<close>.\<close>

definition UnixNano :: "Time \<Rightarrow> int" where
  "UnixNano t = sint (word_of_int t :: 64 word)"

text \<open>The zero \<open>time.Time\<close>, 1 January of year 1, 00:00 UTC.\<close>

definition zeroTime :: Time where
  "zeroTime = - 62135596800 * 1000000000"

text \<open>The conversion \<open>time.Duration(n)\<close> of a Go \<open>int\<close>.\<close>

definition DurationOf :: "int \<Rightarrow> Duration" where
  "DurationOf n = word_of_int n"

subsection \<open>Protocol messages (package proto)\<close>

text \<open>
  Modelled from the spec: the generated package \<open>proto\<close> is not part of the sources.
  The spec gives the shapes: a parameter carries a name, a type tag drawn from a small
  closed set and a string-encoded value; a call request carries a function name, the
  ordered parameters, a correlation ID and a string map of metadata; a call response
  carries a success flag, a message, an optional single result, an error code and the
  echoed correlation ID. Of the type tags, the spec and the sources name STRING, INT,
  FLOAT and JSON.
\<close>

datatype ParameterType = STRING | INT | FLOAT | JSON

record Parameter =
  param_Name :: string
  param_Type :: ParameterType
  param_Value :: string

record CallRequest =
  creq_FunctionName :: string
  creq_Parameters :: "Parameter list"
  creq_RequestId :: string
  creq_Metadata :: "string \<rightharpoonup> string"

record CallResponse =
  cresp_Success :: bool
  cresp_Message :: string
  cresp_Result :: "Parameter option"
  cresp_ErrorCode :: string
  cresp_RequestId :: string

record RegisterRequest =
  rreq_PluginId :: string
  rreq_PluginName :: string
  rreq_Version :: string
  rreq_Description :: string
  rreq_Port :: int
  rreq_Capabilities :: "string list"

record RegisterResponse =
  rresp_Success :: bool
  rresp_Message :: string
  rresp_HostId :: string

record HeartbeatRequest =
  hreq_PluginId :: string
  hreq_Timestamp :: int
  hreq_Status :: string

record HeartbeatResponse =
  hresp_Success :: bool
  hresp_Message :: string
  hresp_ServerTimestamp :: int

text \<open>
  \<open>PluginFunction\<close> and \<open>HostFunction\<close> (types.go): a function from the parameters
  to \<open>(*proto.Parameter, error)\<close>. \<open>Inl\<close> is the text of a non-nil error, \<open>Inr\<close> the
  returned pointer, which may be nil. The context argument is not modelled.
\<close>

type_synonym PluginFunction = "Parameter list \<Rightarrow> string + Parameter option"
type_synonym HostFunction = "Parameter list \<Rightarrow> string + Parameter option"

subsection \<open>Message and error texts\<close>

text \<open>\<open>"function not found: %s"\<close>\<close>

definition msgFunctionNotFound :: "string \<Rightarrow> string" where
  "msgFunctionNotFound name =
     [CHR 0xE6, CHR 0x9C, CHR 0xAA, CHR 0xE6, CHR 0x89, CHR 0xBE, CHR 0xE5, CHR 0x88, CHR 0xB0, CHR 0xE5, CHR 0x87, CHR 0xBD, CHR 0xE6, CHR 0x95, CHR 0xB0] @ '': '' @ name"

text \<open>\<open>"call succeeded"\<close>\<close>

definition msgCallOk :: string where
  "msgCallOk =
     [CHR 0xE8, CHR 0xB0, CHR 0x83, CHR 0xE7, CHR 0x94, CHR 0xA8, CHR 0xE6, CHR 0x88, CHR 0x90, CHR 0xE5, CHR 0x8A, CHR 0x9F]"

text \<open>\<open>"target plugin %s does not exist"\<close>\<close>

definition msgTargetNotExist :: "string \<Rightarrow> string" where
  "msgTargetNotExist tid =
     [CHR 0xE7, CHR 0x9B, CHR 0xAE, CHR 0xE6, CHR 0xA0, CHR 0x87, CHR 0xE6, CHR 0x8F, CHR 0x92, CHR 0xE4, CHR 0xBB, CHR 0xB6] @ '' '' @ tid @ '' '' @ [CHR 0xE4, CHR 0xB8, CHR 0x8D, CHR 0xE5, CHR 0xAD, CHR 0x98, CHR 0xE5, CHR 0x9C, CHR 0xA8]"

text \<open>\<open>"target plugin %s status abnormal: %s"\<close>\<close>

definition msgTargetStatus :: "string \<Rightarrow> string \<Rightarrow> string" where
  "msgTargetStatus tid st =
     [CHR 0xE7, CHR 0x9B, CHR 0xAE, CHR 0xE6, CHR 0xA0, CHR 0x87, CHR 0xE6, CHR 0x8F, CHR 0x92, CHR 0xE4, CHR 0xBB, CHR 0xB6] @ '' '' @ tid @ '' '' @ [CHR 0xE7, CHR 0x8A, CHR 0xB6, CHR 0xE6, CHR 0x80, CHR 0x81, CHR 0xE5, CHR 0xBC, CHR 0x82, CHR 0xE5, CHR 0xB8, CHR 0xB8] @ '': '' @ st"

text \<open>\<open>"calling the target plugin function failed: %v"\<close>\<close>

definition msgInterPluginFailed :: "string \<Rightarrow> string" where
  "msgInterPluginFailed err =
     [CHR 0xE8, CHR 0xB0, CHR 0x83, CHR 0xE7, CHR 0x94, CHR 0xA8, CHR 0xE7, CHR 0x9B, CHR 0xAE, CHR 0xE6, CHR 0xA0, CHR 0x87, CHR 0xE6, CHR 0x8F, CHR 0x92, CHR 0xE4, CHR 0xBB, CHR 0xB6, CHR 0xE5, CHR 0x87, CHR 0xBD, CHR 0xE6, CHR 0x95, CHR 0xB0, CHR 0xE5, CHR 0xA4, CHR 0xB1, CHR 0xE8, CHR 0xB4, CHR 0xA5] @ '': '' @ err"

text \<open>\<open>"heartbeat normal"\<close>\<close>

definition msgHeartbeatOk :: string where
  "msgHeartbeatOk =
     [CHR 0xE5, CHR 0xBF, CHR 0x83, CHR 0xE8, CHR 0xB7, CHR 0xB3, CHR 0xE6, CHR 0xAD, CHR 0xA3, CHR 0xE5, CHR 0xB8, CHR 0xB8]"

text \<open>\<open>"no matching plugin found"\<close>\<close>

definition msgNoMatchingPlugin :: string where
  "msgNoMatchingPlugin =
     [CHR 0xE6, CHR 0x9C, CHR 0xAA, CHR 0xE6, CHR 0x89, CHR 0xBE, CHR 0xE5, CHR 0x88, CHR 0xB0, CHR 0xE5, CHR 0xAF, CHR 0xB9, CHR 0xE5, CHR 0xBA, CHR 0x94, CHR 0xE7, CHR 0x9A, CHR 0x84, CHR 0xE6, CHR 0x8F, CHR 0x92, CHR 0xE4, CHR 0xBB, CHR 0xB6]"

text \<open>\<open>"registration succeeded"\<close>\<close>

definition msgRegistered :: string where
  "msgRegistered =
     [CHR 0xE6, CHR 0xB3, CHR 0xA8, CHR 0xE5, CHR 0x86, CHR 0x8C, CHR 0xE6, CHR 0x88, CHR 0x90, CHR 0xE5, CHR 0x8A, CHR 0x9F]"

text \<open>\<open>fmt.Errorf("plugin %s does not exist", id)\<close>\<close>

definition errNotExist :: "string \<Rightarrow> string" where
  "errNotExist pid =
     [CHR 0xE6, CHR 0x8F, CHR 0x92, CHR 0xE4, CHR 0xBB, CHR 0xB6] @ '' '' @ pid @ '' '' @ [CHR 0xE4, CHR 0xB8, CHR 0x8D, CHR 0xE5, CHR 0xAD, CHR 0x98, CHR 0xE5, CHR 0x9C, CHR 0xA8]"

text \<open>\<open>fmt.Errorf("plugin %s is already running", id)\<close>\<close>

definition errAlreadyRunning :: "string \<Rightarrow> string" where
  "errAlreadyRunning pid =
     [CHR 0xE6, CHR 0x8F, CHR 0x92, CHR 0xE4, CHR 0xBB, CHR 0xB6] @ '' '' @ pid @ '' '' @ [CHR 0xE5, CHR 0xB7, CHR 0xB2, CHR 0xE5, CHR 0x9C, CHR 0xA8, CHR 0xE8, CHR 0xBF, CHR 0x90, CHR 0xE8, CHR 0xA1, CHR 0x8C, CHR 0xE4, CHR 0xB8, CHR 0xAD]"

text \<open>\<open>fmt.Errorf("plugin %s status abnormal: %s", id, status)\<close>\<close>

definition errStatus :: "string \<Rightarrow> string \<Rightarrow> string" where
  "errStatus pid st =
     [CHR 0xE6, CHR 0x8F, CHR 0x92, CHR 0xE4, CHR 0xBB, CHR 0xB6] @ '' '' @ pid @ '' '' @ [CHR 0xE7, CHR 0x8A, CHR 0xB6, CHR 0xE6, CHR 0x80, CHR 0x81, CHR 0xE5, CHR 0xBC, CHR 0x82, CHR 0xE5, CHR 0xB8, CHR 0xB8] @ '': '' @ st"

text \<open>\<open>fmt.Errorf("plugin %s gRPC client not connected", id)\<close>\<close>

definition errClientNotConnected :: "string \<Rightarrow> string" where
  "errClientNotConnected pid =
     [CHR 0xE6, CHR 0x8F, CHR 0x92, CHR 0xE4, CHR 0xBB, CHR 0xB6] @ '' '' @ pid @ '' gRPC'' @ [CHR 0xE5, CHR 0xAE, CHR 0xA2, CHR 0xE6, CHR 0x88, CHR 0xB7, CHR 0xE7, CHR 0xAB, CHR 0xAF, CHR 0xE6, CHR 0x9C, CHR 0xAA, CHR 0xE8, CHR 0xBF, CHR 0x9E, CHR 0xE6, CHR 0x8E, CHR 0xA5]"

text \<open>\<open>fmt.Errorf("cannot find an available port (tried range: %d-%d)", lo, hi)\<close>\<close>

definition errNoAvailablePort :: "int \<Rightarrow> int \<Rightarrow> string" where
  "errNoAvailablePort lo hi =
     [CHR 0xE6, CHR 0x97, CHR 0xA0, CHR 0xE6, CHR 0xB3, CHR 0x95, CHR 0xE6, CHR 0x89, CHR 0xBE, CHR 0xE5, CHR 0x88, CHR 0xB0, CHR 0xE5, CHR 0x8F, CHR 0xAF, CHR 0xE7, CHR 0x94, CHR 0xA8, CHR 0xE7, CHR 0xAB, CHR 0xAF, CHR 0xE5, CHR 0x8F, CHR 0xA3] @ '' ('' @ [CHR 0xE5, CHR 0xB0, CHR 0x9D, CHR 0xE8, CHR 0xAF, CHR 0x95, CHR 0xE8, CHR 0x8C, CHR 0x83, CHR 0xE5, CHR 0x9B, CHR 0xB4] @ '': '' @ itoa lo @ ''-'' @ itoa hi @ '')''"

text \<open>\<open>fmt.Errorf("starting the plugin process failed: %v", err)\<close>\<close>

definition errStartProcess :: "string \<Rightarrow> string" where
  "errStartProcess err =
     [CHR 0xE5, CHR 0x90, CHR 0xAF, CHR 0xE5, CHR 0x8A, CHR 0xA8, CHR 0xE6, CHR 0x8F, CHR 0x92, CHR 0xE4, CHR 0xBB, CHR 0xB6, CHR 0xE8, CHR 0xBF, CHR 0x9B, CHR 0xE7, CHR 0xA8, CHR 0x8B, CHR 0xE5, CHR 0xA4, CHR 0xB1, CHR 0xE8, CHR 0xB4, CHR 0xA5] @ '': '' @ err"

text \<open>\<open>fmt.Errorf("getting the plugin information failed: %v", err)\<close>\<close>

definition errGetInfo :: "string \<Rightarrow> string" where
  "errGetInfo err =
     [CHR 0xE8, CHR 0x8E, CHR 0xB7, CHR 0xE5, CHR 0x8F, CHR 0x96, CHR 0xE6, CHR 0x8F, CHR 0x92, CHR 0xE4, CHR 0xBB, CHR 0xB6, CHR 0xE4, CHR 0xBF, CHR 0xA1, CHR 0xE6, CHR 0x81, CHR 0xAF, CHR 0xE5, CHR 0xA4, CHR 0xB1, CHR 0xE8, CHR 0xB4, CHR 0xA5] @ '': '' @ err"

text \<open>\<open>fmt.Errorf("starting the gRPC server failed: %v", err)\<close>\<close>

definition errStartServer :: "string \<Rightarrow> string" where
  "errStartServer err =
     [CHR 0xE5, CHR 0x90, CHR 0xAF, CHR 0xE5, CHR 0x8A, CHR 0xA8] @ ''gRPC'' @ [CHR 0xE6, CHR 0x9C, CHR 0x8D, CHR 0xE5, CHR 0x8A, CHR 0xA1, CHR 0xE5, CHR 0x99, CHR 0xA8, CHR 0xE5, CHR 0xA4, CHR 0xB1, CHR 0xE8, CHR 0xB4, CHR 0xA5] @ '': '' @ err"

subsection \<open>Plugin records, configuration and registry (types.go)\<close>

datatype PluginStatus =
  StatusStopped | StatusStarting | StatusRunning | StatusStopping | StatusError | StatusCrashed

text \<open>The string behind each status constant, as \<open>%s\<close> prints it.\<close>

fun status_string :: "PluginStatus \<Rightarrow> string" where
  "status_string StatusStopped = ''stopped''"
| "status_string StatusStarting = ''starting''"
| "status_string StatusRunning = ''running''"
| "status_string StatusStopping = ''stopping''"
| "status_string StatusError = ''error''"
| "status_string StatusCrashed = ''crashed''"

text \<open>
  The handles a record holds. An \<open>*exec.Cmd\<close> is its path and the environment entries
  that \<open>startPluginProcess\<close> appends to \<open>os.Environ()\<close>; an \<open>*os.Process\<close> is its
  process ID; the generated client wraps the connection it was made from.

  A \<open>*grpc.ClientConn\<close> is a number and the state of the connection
  (\<open>connectivity.State\<close> of gRPC) at the moment \<open>grpc.Dial\<close> returns it. The
  connection to the server is established when the state is \<open>Ready\<close>. The host
  never reads the state.
\<close>

record Cmd =
  Path :: string
  Env :: "string list"

type_synonym Process = nat
type_synonym Listener = nat

datatype ConnectivityState = Idle | Connecting | Ready | TransientFailure | Shutdown

datatype ClientConn = Conn (conn_no: nat) (conn_state: ConnectivityState)

datatype PluginServiceClient = NewPluginServiceClient ClientConn

record PluginInfo =
  ID :: string
  Name :: string
  Version :: string
  Description :: string
  Port :: int
  Capabilities :: "string list"
  Functions :: "string list"
  ExecutablePath :: string
  Process :: "Process option"
  Command :: "Cmd option"
  Client :: "PluginServiceClient option"
  Connection :: "ClientConn option"
  Status :: PluginStatus
  StartTime :: Time
  LastHeartbeat :: Time
  AutoRestart :: bool
  MaxRestarts :: int
  RestartCount :: int

record PluginBasicInfo =
  info_ID :: string
  info_Name :: string
  info_Version :: string
  info_Description :: string
  info_Logo :: string
  info_Capabilities :: "string list"
  info_Functions :: "string list"

text \<open>\<open>HostConfig\<close>; its field \<open>Port\<close> is \<open>cfg_Port\<close> here.\<close>

record HostConfig =
  cfg_Port :: int
  PortRange :: "int list"
  DebugMode :: bool
  LogLevel :: string
  LogDir :: string
  HeartbeatInterval :: Duration
  MaxHeartbeatMiss :: int
  AutoRestartPlugin :: bool
  EnablePluginReconnect :: bool

definition DefaultHostConfig :: HostConfig where
  "DefaultHostConfig =
     \<lparr>cfg_Port = 0, PortRange = [50051, 50100], DebugMode = True, LogLevel = ''info'',
      LogDir = ''./logs'', HeartbeatInterval = 10 * Second, MaxHeartbeatMiss = 3,
      AutoRestartPlugin = True, EnablePluginReconnect = True\<rparr>"

subsection \<open>The host process\<close>

text \<open>
  The lines of \<open>log.Printf\<close>, each by its format and its arguments. In the order of
  the constructors, with the function that writes the line:
  \<^item> "starting the plugin host" and "plugin host started, listening on port %d"
    (\<open>Start\<close>);
  \<^item> "found available port %d" and "port %d is taken, trying the next"
    (\<open>startGrpcServer\<close>);
  \<^item> "registered host function %s" (\<open>RegisterHostFunction\<close>);
  \<^item> "loading plugin %s" and "plugin loaded (ID %s)" (\<open>LoadPlugin\<close>);
  \<^item> "starting plugin %s" (\<open>StartPlugin\<close>) and "stopping plugin %s"
    (\<open>StopPlugin\<close>);
  \<^item> "plugin process started: %s, PID %d" (\<open>startPluginProcess\<close>);
  \<^item> "killing the plugin process failed: %v" and "plugin stopped: %s"
    (\<open>stopPluginProcess\<close>);
  \<^item> "plugin process exited abnormally: %s, error %v", "plugin process exited
    normally: %s" and "auto-restarting plugin %s (time %d)"
    (\<open>monitorPluginProcess\<close>);
  \<^item> "plugin %s heartbeat timed out, marked as crashed" and "auto-restarting the
    plugin %s whose heartbeat timed out (time %d)" (\<open>checkPluginsHealth\<close>);
  \<^item> "plugin registration request: %s (%s)", "plugin registration: %s -> %s" and
    "plugin registered: %s (localhost:%d)" (\<open>RegisterPlugin\<close>);
  \<^item> "plugin calls host function %s (request ID %s)" (\<open>CallHostFunction\<close>);
  \<^item> "function not found: %s", "function call failed: %v" and "function call
    succeeded: %s" (\<open>CallHostFunction\<close> and the plugin's \<open>CallPluginFunction\<close>);
  \<^item> "inter-plugin call: %s -> %s.%s", "inter-plugin call failed: %v" and
    "inter-plugin call succeeded: %s -> %s.%s" (\<open>callPluginFunction\<close>);
  \<^item> "connecting to plugin %s (%s)", "connecting to the plugin failed: %v" and
    "connected to plugin %s" (\<open>connectToPlugin\<close>);
  \<^item> "received function call request %s (request ID %s)" (the plugin's
    \<open>CallPluginFunction\<close>).
  The line that the gRPC server's goroutine writes is not modelled.
\<close>

datatype log_line =
    LogHostStarting
  | LogHostStarted int
  | LogPortFound int
  | LogPortBusy int
  | LogHostFunctionRegistered string
  | LogLoading string
  | LogLoaded string
  | LogStarting string
  | LogStopping string
  | LogProcessStarted string Process
  | LogKillFailed string
  | LogStopped string
  | LogAbnormalExit string string
  | LogNormalExit string
  | LogAutoRestart string int
  | LogHeartbeatTimeout string
  | LogAutoRestartHeartbeat string int
  | LogRegisterRequest string string
  | LogReRegistered string string
  | LogRegistered string int
  | LogHostCall string string
  | LogFunctionNotFound string
  | LogFunctionFailed string
  | LogFunctionOk string
  | LogInterPluginCall string string string
  | LogInterPluginFailed string
  | LogInterPluginOk string string string
  | LogConnecting string string
  | LogConnectFailed string
  | LogConnected string
  | LogCallReceived string string

text \<open>The goroutines a host starts: the gRPC server, the heartbeat ticker loop, one
  process monitor per started process, one connector per registration.\<close>

datatype task = ServeTask | HeartbeatTask | MonitorTask nat | ConnectTask nat

datatype 'a outcome = Panics | Hangs | Returns 'a

text \<open>
  \<open>PluginHost\<close>. The fields \<open>config\<close> to \<open>heartbeatTicker\<close> are the struct's;
  \<open>registry\<close> is the map \<open>plugins\<close> of the \<open>PluginRegistry\<close>, as an association
  list whose order is the order in which \<open>range\<close> visits the map (Go leaves it
  unspecified, so no theorem may depend on it). The context, the wait group, the
  shutdown channel and the mutex are not modelled. The remaining fields are the store
  of \<open>PluginInfo\<close> objects with the number of objects allocated so far, the pending
  goroutines, and what the process has done: lines logged, commands passed to
  \<open>cmd.Start()\<close>, processes killed, connections closed.
\<close>

record PluginHost =
  config :: HostConfig
  registry :: "(string \<times> nat) list"
  grpcServer :: bool
  listener :: "Listener option"
  actualPort :: int
  hostFunctions :: "string \<rightharpoonup> HostFunction"
  heartbeatTicker :: "Duration option"
  objects :: "nat \<Rightarrow> PluginInfo"
  allocated :: nat
  goroutines :: "task list"
  logged :: "log_line list"
  started :: "Cmd list"
  killed :: "Process list"
  closed :: "ClientConn list"

text \<open>A write through the pointer \<open>a\<close>, and a line of log.\<close>

definition upd :: "nat \<Rightarrow> (PluginInfo \<Rightarrow> PluginInfo) \<Rightarrow> PluginHost \<Rightarrow> PluginHost" where
  "upd a f h = h\<lparr>objects := (objects h)(a := f (objects h a))\<rparr>"

definition say :: "log_line \<Rightarrow> PluginHost \<Rightarrow> PluginHost" where
  "say l h = h\<lparr>logged := logged h @ [l]\<rparr>"

definition spawn :: "task \<Rightarrow> PluginHost \<Rightarrow> PluginHost" where
  "spawn t h = h\<lparr>goroutines := goroutines h @ [t]\<rparr>"

subsubsection \<open>PluginRegistry\<close>

definition Register :: "nat \<Rightarrow> PluginHost \<Rightarrow> PluginHost" where
  "Register a h = h\<lparr>registry := AList.update (ID (objects h a)) a (registry h)\<rparr>"

definition Unregister :: "string \<Rightarrow> PluginHost \<Rightarrow> PluginHost" where
  "Unregister pluginID h = h\<lparr>registry := AList.delete pluginID (registry h)\<rparr>"

definition Get :: "PluginHost \<Rightarrow> string \<Rightarrow> nat option" where
  "Get h pluginID = map_of (registry h) pluginID"

definition List :: "PluginHost \<Rightarrow> nat list" where
  "List h = map snd (registry h)"

definition Count :: "PluginHost \<Rightarrow> nat" where
  "Count h = length (remdups (map fst (registry h)))"

subsubsection \<open>Process management (host.go)\<close>

text \<open>
  \<open>startPluginProcess\<close>. \<open>os n cmd\<close> is what \<open>cmd.Start()\<close> answers on the
  \<open>n\<close>-th command the host starts: an error text or the new process. \<open>now\<close> is
  the reading of the clock; one reading serves a whole step.
\<close>

definition startPluginProcess ::
  "(nat \<Rightarrow> Cmd \<Rightarrow> string + Process) \<Rightarrow> Time \<Rightarrow> nat \<Rightarrow> PluginHost \<Rightarrow> string option \<times> PluginHost" where
  "startPluginProcess os now a h =
     (let h1 = upd a (\<lambda>p. p\<lparr>Status := StatusStarting\<rparr>) h;
          cmd = \<lparr>Path = ExecutablePath (objects h1 a),
                 Env = [''PLUGIN_ID='' @ ID (objects h1 a),
                        ''HOST_GRPC_ADDRESS=localhost:'' @ itoa (actualPort h1)]\<rparr>;
          h2 = h1\<lparr>started := started h1 @ [cmd]\<rparr>
      in case os (length (started h1)) cmd of
           Inl err \<Rightarrow> (Some (errStartProcess err), upd a (\<lambda>p. p\<lparr>Status := StatusError\<rparr>) h2)
         | Inr pr \<Rightarrow>
             (None,
              spawn (MonitorTask a)
                (say (LogProcessStarted (ExecutablePath (objects h2 a)) pr)
                   (upd a (\<lambda>p. p\<lparr>Process := Some pr, Command := Some cmd, StartTime := now\<rparr>) h2))))"

text \<open>\<open>stopPluginProcess\<close>. \<open>kill pr\<close> is the error of \<open>Process.Kill()\<close>, if any.\<close>

definition stopPluginProcess ::
  "(Process \<Rightarrow> string option) \<Rightarrow> nat \<Rightarrow> PluginHost \<Rightarrow> string option \<times> PluginHost" where
  "stopPluginProcess kill a h =
     (let h1 = upd a (\<lambda>p. p\<lparr>Status := StatusStopping\<rparr>) h;
          h2 = (case Connection (objects h1 a) of
                  None \<Rightarrow> h1
                | Some c \<Rightarrow> (upd a (\<lambda>p. p\<lparr>Connection := None, Client := None\<rparr>) h1)
                              \<lparr>closed := closed h1 @ [c]\<rparr>);
          h3 = (case Process (objects h2 a) of
                  None \<Rightarrow> h2
                | Some pr \<Rightarrow>
                    (let h' = (upd a (\<lambda>p. p\<lparr>Process := None\<rparr>) h2)\<lparr>killed := killed h2 @ [pr]\<rparr>
                     in case kill pr of None \<Rightarrow> h' | Some err \<Rightarrow> say (LogKillFailed err) h'));
          h4 = upd a (\<lambda>p. p\<lparr>Status := StatusStopped\<rparr>) h3
      in (None, say (LogStopped (ID (objects h4 a))) h4))"

text \<open>
  \<open>monitorPluginProcess\<close>, from the moment \<open>plugin.Command.Wait()\<close> returns with
  \<open>waitErr\<close>. The counter is a Go \<open>int\<close>; it is incremented only below
  \<open>MaxRestarts\<close>, so the increment cannot wrap. The five seconds of sleep before the
  restart are not modelled.
\<close>

definition monitorPluginProcess ::
  "string option \<Rightarrow> (nat \<Rightarrow> Cmd \<Rightarrow> string + Process) \<Rightarrow> Time \<Rightarrow> nat \<Rightarrow> PluginHost \<Rightarrow> PluginHost" where
  "monitorPluginProcess waitErr os now a h =
     (case Command (objects h a) of
        None \<Rightarrow> h
      | Some c \<Rightarrow>
          (let normal = upd a (\<lambda>p. p\<lparr>Status := StatusStopped\<rparr>) (say (LogNormalExit (ID (objects h a))) h);
               h1 = (case waitErr of
                       None \<Rightarrow> normal
                     | Some err \<Rightarrow>
                         if Status (objects h a) \<noteq> StatusStopping
                         then upd a (\<lambda>p. p\<lparr>Status := StatusCrashed\<rparr>)
                                (say (LogAbnormalExit (ID (objects h a)) err) h)
                         else normal)
           in if AutoRestart (objects h1 a) \<and> Status (objects h1 a) = StatusCrashed
                 \<and> RestartCount (objects h1 a) < MaxRestarts (objects h1 a)
              then (let h2 = upd a (\<lambda>p. p\<lparr>RestartCount := RestartCount p + 1\<rparr>) h1;
                        h3 = say (LogAutoRestart (ID (objects h2 a)) (RestartCount (objects h2 a))) h2
                    in snd (startPluginProcess os now a h3))
              else h1))"

text \<open>
  \<open>checkPluginsHealth\<close>: the test of one record, the body of the loop for one
  record, and the loop over the snapshot \<open>registry.List()\<close>.
\<close>

definition heartbeatTimedOut :: "HostConfig \<Rightarrow> Time \<Rightarrow> PluginInfo \<Rightarrow> bool" where
  "heartbeatTimedOut c now p =
     (HeartbeatInterval c * DurationOf (MaxHeartbeatMiss c) <s Sub now (LastHeartbeat p))"

definition checkPluginHealth ::
  "(nat \<Rightarrow> Cmd \<Rightarrow> string + Process) \<Rightarrow> Time \<Rightarrow> nat \<Rightarrow> PluginHost \<Rightarrow> PluginHost" where
  "checkPluginHealth os now a h =
     (if Status (objects h a) = StatusRunning
      then if heartbeatTimedOut (config h) now (objects h a)
           then (let h1 = upd a (\<lambda>p. p\<lparr>Status := StatusCrashed\<rparr>)
                            (say (LogHeartbeatTimeout (ID (objects h a))) h)
                 in if AutoRestart (objects h1 a)
                       \<and> RestartCount (objects h1 a) < MaxRestarts (objects h1 a)
                    then (let h2 = upd a (\<lambda>p. p\<lparr>RestartCount := RestartCount p + 1\<rparr>) h1;
                              h3 = say (LogAutoRestartHeartbeat (ID (objects h2 a))
                                          (RestartCount (objects h2 a))) h2
                          in snd (startPluginProcess os now a h3))
                    else h1)
           else h
      else h)"

definition checkPluginsHealth ::
  "(nat \<Rightarrow> Cmd \<Rightarrow> string + Process) \<Rightarrow> Time \<Rightarrow> PluginHost \<Rightarrow> PluginHost" where
  "checkPluginsHealth os now h = foldl (\<lambda>h' a. checkPluginHealth os now a h') h (List h)"

subsubsection \<open>The host's API (host.go)\<close>

text \<open>
  \<open>LoadPlugin\<close>. \<open>GetPluginInfo\<close> runs the executable with \<open>--info\<close> and parses
  its output: \<open>getInfo path\<close> is its error text or the parsed descriptor. The new
  object takes the next free address; the fields the struct literal leaves out hold
  their zero values.
\<close>

definition LoadPlugin ::
  "(string \<Rightarrow> string + PluginBasicInfo) \<Rightarrow> Time \<Rightarrow> string \<Rightarrow> PluginHost \<Rightarrow> (string + nat) \<times> PluginHost" where
  "LoadPlugin getInfo now executablePath h =
     (let h1 = say (LogLoading executablePath) h
      in case getInfo executablePath of
           Inl err \<Rightarrow> (Inl (errGetInfo err), h1)
         | Inr bi \<Rightarrow>
             (let pluginID = (if info_ID bi = [] then ''plugin-'' @ itoa (UnixNano now) else info_ID bi);
                  a = allocated h1;
                  pluginInfo =
                    \<lparr>ID = pluginID, Name = info_Name bi, Version = info_Version bi,
                     Description = info_Description bi, Port = 0,
                     Capabilities = info_Capabilities bi, Functions = info_Functions bi,
                     ExecutablePath = executablePath, Process = None, Command = None,
                     Client = None, Connection = None, Status = StatusStopped,
                     StartTime = zeroTime, LastHeartbeat = zeroTime,
                     AutoRestart = AutoRestartPlugin (config h1), MaxRestarts = 3,
                     RestartCount = 0\<rparr>;
                  h2 = h1\<lparr>objects := (objects h1)(a := pluginInfo), allocated := Suc a\<rparr>
              in (Inr a, say (LogLoaded pluginID) (Register a h2))))"

definition StartPlugin ::
  "(nat \<Rightarrow> Cmd \<Rightarrow> string + Process) \<Rightarrow> Time \<Rightarrow> string \<Rightarrow> PluginHost \<Rightarrow> string option \<times> PluginHost" where
  "StartPlugin os now pluginID h =
     (case Get h pluginID of
        None \<Rightarrow> (Some (errNotExist pluginID), h)
      | Some a \<Rightarrow>
          if Status (objects h a) = StatusRunning then (Some (errAlreadyRunning pluginID), h)
          else startPluginProcess os now a (say (LogStarting (ExecutablePath (objects h a))) h))"

text \<open>\<open>StartPluginByPath\<close>; a record found by its path is returned as it is.\<close>

definition StartPluginByPath ::
  "(string \<Rightarrow> string + PluginBasicInfo) \<Rightarrow> (nat \<Rightarrow> Cmd \<Rightarrow> string + Process) \<Rightarrow> Time \<Rightarrow> string
     \<Rightarrow> PluginHost \<Rightarrow> (nat option \<times> string option) \<times> PluginHost" where
  "StartPluginByPath getInfo os now executablePath h =
     (case find (\<lambda>a. ExecutablePath (objects h a) = executablePath) (List h) of
        Some a \<Rightarrow> ((Some a, None), h)
      | None \<Rightarrow>
          (case LoadPlugin getInfo now executablePath h of
             (Inl err, h1) \<Rightarrow> ((None, Some err), h1)
           | (Inr a, h1) \<Rightarrow>
               (case StartPlugin os now (ID (objects h1 a)) h1 of
                  (err, h2) \<Rightarrow> ((Some a, err), h2))))"

definition StopPlugin ::
  "(Process \<Rightarrow> string option) \<Rightarrow> string \<Rightarrow> PluginHost \<Rightarrow> string option \<times> PluginHost" where
  "StopPlugin kill pluginID h =
     (case Get h pluginID of
        None \<Rightarrow> (Some (errNotExist pluginID), h)
      | Some a \<Rightarrow> stopPluginProcess kill a (say (LogStopping pluginID) h))"

definition StopAllPlugins :: "(Process \<Rightarrow> string option) \<Rightarrow> PluginHost \<Rightarrow> PluginHost" where
  "StopAllPlugins kill h =
     foldl (\<lambda>h' a. if Status (objects h' a) = StatusRunning then snd (stopPluginProcess kill a h') else h')
       h (List h)"

text \<open>
  \<open>PluginHost.CallPluginFunction\<close>. \<open>rpc c req\<close> is what the call of
  \<open>CallPluginFunction\<close> on the client \<open>c\<close> answers within its 30 seconds: an error
  text or the response. The operation writes nothing.
\<close>

definition CallPluginFunction ::
  "(PluginServiceClient \<Rightarrow> CallRequest \<Rightarrow> string + CallResponse) \<Rightarrow> Time \<Rightarrow> string \<Rightarrow> string
     \<Rightarrow> Parameter list \<Rightarrow> PluginHost \<Rightarrow> string + CallResponse" where
  "CallPluginFunction rpc now pluginID functionName params h =
     (case Get h pluginID of
        None \<Rightarrow> Inl (errNotExist pluginID)
      | Some a \<Rightarrow>
          if Status (objects h a) \<noteq> StatusRunning
          then Inl (errStatus pluginID (status_string (Status (objects h a))))
          else (case Client (objects h a) of
                  None \<Rightarrow> Inl (errClientNotConnected pluginID)
                | Some c \<Rightarrow>
                    rpc c \<lparr>creq_FunctionName = functionName, creq_Parameters = params,
                           creq_RequestId = ''host-'' @ itoa (UnixNano now),
                           creq_Metadata = [''source'' \<mapsto> ''host'',
                                            ''timestamp'' \<mapsto> itoa (Unix now)]\<rparr>))"

definition RegisterHostFunction :: "string \<Rightarrow> HostFunction \<Rightarrow> PluginHost \<Rightarrow> PluginHost" where
  "RegisterHostFunction name fn h =
     say (LogHostFunctionRegistered name) (h\<lparr>hostFunctions := (hostFunctions h)(name \<mapsto> fn)\<rparr>)"

text \<open>The zero value of \<open>PluginInfo\<close>; the store holds it where nothing is allocated.\<close>

definition zeroPluginInfo :: PluginInfo where
  "zeroPluginInfo =
     \<lparr>ID = [], Name = [], Version = [], Description = [], Port = 0, Capabilities = [],
      Functions = [], ExecutablePath = [], Process = None, Command = None, Client = None,
      Connection = None, Status = StatusStopped, StartTime = zeroTime,
      LastHeartbeat = zeroTime, AutoRestart = False, MaxRestarts = 0, RestartCount = 0\<rparr>"

text \<open>
  \<open>NewPluginHost\<close>; a nil configuration is \<open>None\<close>. The three default host functions
  are closures over the host and the clock; their bodies are taken as arguments.
\<close>

definition NewPluginHost ::
  "HostConfig option \<Rightarrow> HostFunction \<Rightarrow> HostFunction \<Rightarrow> HostFunction \<Rightarrow> PluginHost" where
  "NewPluginHost cfg getSystemTime getSystemInfo getPluginList =
     RegisterHostFunction ''GetPluginList'' getPluginList
       (RegisterHostFunction ''GetSystemInfo'' getSystemInfo
          (RegisterHostFunction ''GetSystemTime'' getSystemTime
             \<lparr>config = (case cfg of None \<Rightarrow> DefaultHostConfig | Some c \<Rightarrow> c),
              registry = [], grpcServer = False, listener = None, actualPort = 0,
              hostFunctions = Map.empty, heartbeatTicker = None,
              objects = (\<lambda>a. zeroPluginInfo), allocated = 0, goroutines = [], logged = [],
              started = [], killed = [], closed = []\<rparr>))"

subsubsection \<open>Starting the host (host.go)\<close>

text \<open>\<open>port++\<close> on a Go \<open>int\<close> of 64 bits.\<close>

definition next_port :: "int \<Rightarrow> int" where
  "next_port port = (if port = 2 ^ 63 - 1 then - (2 ^ 63) else port + 1)"

text \<open>
  The loop of \<open>startGrpcServer\<close> from \<open>port\<close> on. \<open>listen address\<close> is what
  \<open>net.Listen("tcp", address)\<close> answers. The result is \<open>None\<close> when the loop does
  not end, otherwise the listener and its port, if one was bound.
\<close>

partial_function (option) tryPorts ::
  "(string \<Rightarrow> string + Listener) \<Rightarrow> int \<Rightarrow> int \<Rightarrow> PluginHost
     \<Rightarrow> ((Listener \<times> int) option \<times> PluginHost) option" where
  "tryPorts listen port maxPort h =
     (if port \<le> maxPort
      then (case listen ('':'' @ itoa port) of
              Inr l \<Rightarrow> Some (Some (l, port), say (LogPortFound port) h)
            | Inl err \<Rightarrow> tryPorts listen (next_port port) maxPort (say (LogPortBusy port) h))
      else Some (None, h))"

text \<open>
  \<open>startGrpcServer\<close>. Both entries of \<open>PortRange\<close> are read before \<open>Port\<close> is
  looked at; reading an entry the slice does not have panics.
\<close>

definition startGrpcServer ::
  "(string \<Rightarrow> string + Listener) \<Rightarrow> PluginHost \<Rightarrow> (string option \<times> PluginHost) outcome" where
  "startGrpcServer listen h =
     (case PortRange (config h) of
        [] \<Rightarrow> Panics
      | [r0] \<Rightarrow> Panics
      | r0 # r1 # rs \<Rightarrow>
          (let startPort = (if cfg_Port (config h) > 0 then cfg_Port (config h) else r0);
               maxPort = (if cfg_Port (config h) > 0 then cfg_Port (config h) else r1)
           in case tryPorts listen startPort maxPort h of
                None \<Rightarrow> Hangs
              | Some (None, h1) \<Rightarrow> Returns (Some (errNoAvailablePort startPort maxPort), h1)
              | Some (Some (l, port), h1) \<Rightarrow>
                  Returns (None, spawn ServeTask
                                   (h1\<lparr>listener := Some l, actualPort := port, grpcServer := True\<rparr>))))"

text \<open>\<open>startMonitoring\<close>; \<open>time.NewTicker\<close> panics on a duration that is not positive.\<close>

definition startMonitoring :: "PluginHost \<Rightarrow> PluginHost outcome" where
  "startMonitoring h =
     (if HeartbeatInterval (config h) \<le>s 0 then Panics
      else Returns (spawn HeartbeatTask (h\<lparr>heartbeatTicker := Some (HeartbeatInterval (config h))\<rparr>)))"

definition Start ::
  "(string \<Rightarrow> string + Listener) \<Rightarrow> PluginHost \<Rightarrow> (string option \<times> PluginHost) outcome" where
  "Start listen h =
     (case startGrpcServer listen (say LogHostStarting h) of
        Panics \<Rightarrow> Panics
      | Hangs \<Rightarrow> Hangs
      | Returns (Some err, h1) \<Rightarrow> Returns (Some (errStartServer err), h1)
      | Returns (None, h1) \<Rightarrow>
          (case startMonitoring h1 of
             Panics \<Rightarrow> Panics
           | Hangs \<Rightarrow> Hangs
           | Returns h2 \<Rightarrow> Returns (None, say (LogHostStarted (actualPort h2)) h2)))"

subsubsection \<open>The host's inbound RPC service (hostService)\<close>

text \<open>
  Each handler returns the response and the error of the Go pair, and the new state.
  \<open>RegisterPlugin\<close> starts \<open>connectToPlugin\<close> as a goroutine.
\<close>

definition RegisterPlugin ::
  "RegisterRequest \<Rightarrow> Time \<Rightarrow> PluginHost \<Rightarrow> (RegisterResponse \<times> string option) \<times> PluginHost" where
  "RegisterPlugin req now h =
     (let h0 = say (LogRegisterRequest (rreq_PluginName req) (rreq_PluginId req)) h
      in case find (\<lambda>a. ID (objects h0 a) = rreq_PluginId req \<or> Status (objects h0 a) = StatusStarting)
                (List h0) of
           None \<Rightarrow>
             ((\<lparr>rresp_Success = False, rresp_Message = msgNoMatchingPlugin, rresp_HostId = []\<rparr>, None), h0)
         | Some a \<Rightarrow>
             (let oldID = ID (objects h0 a);
                  h1 = upd a (\<lambda>p. p\<lparr>ID := rreq_PluginId req, Name := rreq_PluginName req,
                                      Version := rreq_Version req, Description := rreq_Description req,
                                      Port := rreq_Port req, Capabilities := rreq_Capabilities req,
                                      Status := StatusStarting, LastHeartbeat := now\<rparr>) h0;
                  h2 = (if oldID \<noteq> rreq_PluginId req
                        then say (LogReRegistered oldID (rreq_PluginId req))
                               (Register a (Unregister oldID h1))
                        else h1);
                  h3 = say (LogRegistered (rreq_PluginName req) (rreq_Port req)) (spawn (ConnectTask a) h2)
              in ((\<lparr>rresp_Success = True, rresp_Message = msgRegistered,
                     rresp_HostId = ''host-'' @ itoa (Unix now)\<rparr>, None), h3)))"

definition Heartbeat ::
  "HeartbeatRequest \<Rightarrow> Time \<Rightarrow> PluginHost \<Rightarrow> (HeartbeatResponse \<times> string option) \<times> PluginHost" where
  "Heartbeat req now h =
     (let h1 = (case Get h (hreq_PluginId req) of
                  Some a \<Rightarrow> upd a (\<lambda>p. p\<lparr>LastHeartbeat := now\<rparr>) h
                | None \<Rightarrow> h)
      in ((\<lparr>hresp_Success = True, hresp_Message = msgHeartbeatOk,
             hresp_ServerTimestamp = Unix now\<rparr>, None), h1))"

text \<open>
  \<open>callPluginFunction\<close>, the relay: the request it forwards (\<open>enhancedReq\<close>), the
  caller's ID read from the metadata (\<open>sourceOf\<close>; a key a Go map does not hold reads
  as the empty string), and the handler. The call through a nil \<open>Client\<close> panics.
\<close>

definition enhancedReq :: "Time \<Rightarrow> CallRequest \<Rightarrow> string \<Rightarrow> string \<Rightarrow> CallRequest" where
  "enhancedReq now req sourcePluginID targetPluginID =
     \<lparr>creq_FunctionName = creq_FunctionName req,
      creq_Parameters = creq_Parameters req,
      creq_RequestId = creq_RequestId req,
      creq_Metadata = [''source'' \<mapsto> ''inter_plugin'',
                       ''source_plugin'' \<mapsto> sourcePluginID,
                       ''target_plugin'' \<mapsto> targetPluginID,
                       ''timestamp'' \<mapsto> itoa (Unix now),
                       ''via_host'' \<mapsto> ''true'']\<rparr>"

definition sourceOf :: "CallRequest \<Rightarrow> string" where
  "sourceOf req = (case creq_Metadata req ''plugin_id'' of None \<Rightarrow> [] | Some v \<Rightarrow> v)"

definition callPluginFunction ::
  "(PluginServiceClient \<Rightarrow> CallRequest \<Rightarrow> string + CallResponse) \<Rightarrow> Time \<Rightarrow> CallRequest \<Rightarrow> string
     \<Rightarrow> PluginHost \<Rightarrow> ((CallResponse \<times> string option) \<times> PluginHost) outcome" where
  "callPluginFunction rpc now req targetPluginID h =
     (let sourcePluginID = sourceOf req;
          h1 = say (LogInterPluginCall sourcePluginID targetPluginID (creq_FunctionName req)) h
      in case Get h1 targetPluginID of
           None \<Rightarrow>
             Returns ((\<lparr>cresp_Success = False, cresp_Message = msgTargetNotExist targetPluginID,
                        cresp_Result = None, cresp_ErrorCode = ''TARGET_PLUGIN_NOT_FOUND'',
                        cresp_RequestId = creq_RequestId req\<rparr>, None), h1)
         | Some a \<Rightarrow>
             if Status (objects h1 a) \<noteq> StatusRunning
             then Returns ((\<lparr>cresp_Success = False,
                             cresp_Message = msgTargetStatus targetPluginID
                                               (status_string (Status (objects h1 a))),
                             cresp_Result = None, cresp_ErrorCode = ''TARGET_PLUGIN_NOT_RUNNING'',
                             cresp_RequestId = creq_RequestId req\<rparr>, None), h1)
             else (case Client (objects h1 a) of
                     None \<Rightarrow> Panics
                   | Some c \<Rightarrow>
                       (case rpc c (enhancedReq now req sourcePluginID targetPluginID) of
                          Inl err \<Rightarrow>
                            Returns ((\<lparr>cresp_Success = False,
                                       cresp_Message = msgInterPluginFailed err,
                                       cresp_Result = None,
                                       cresp_ErrorCode = ''INTER_PLUGIN_CALL_ERROR'',
                                       cresp_RequestId = creq_RequestId req\<rparr>, None),
                                     say (LogInterPluginFailed err) h1)
                        | Inr resp \<Rightarrow>
                            Returns ((resp, None),
                                     say (LogInterPluginOk sourcePluginID targetPluginID
                                            (creq_FunctionName req)) h1))))"

definition CallHostFunction ::
  "(PluginServiceClient \<Rightarrow> CallRequest \<Rightarrow> string + CallResponse) \<Rightarrow> Time \<Rightarrow> CallRequest
     \<Rightarrow> PluginHost \<Rightarrow> ((CallResponse \<times> string option) \<times> PluginHost) outcome" where
  "CallHostFunction rpc now req h =
     (case creq_Metadata req ''target_plugin_id'' of
        Some targetPluginID \<Rightarrow> callPluginFunction rpc now req targetPluginID h
      | None \<Rightarrow>
          (let h1 = say (LogHostCall (creq_FunctionName req) (creq_RequestId req)) h
           in case hostFunctions h1 (creq_FunctionName req) of
                None \<Rightarrow>
                  Returns ((\<lparr>cresp_Success = False,
                             cresp_Message = msgFunctionNotFound (creq_FunctionName req),
                             cresp_Result = None, cresp_ErrorCode = ''FUNCTION_NOT_FOUND'',
                             cresp_RequestId = creq_RequestId req\<rparr>, None),
                           say (LogFunctionNotFound (creq_FunctionName req)) h1)
              | Some fn \<Rightarrow>
                  (case fn (creq_Parameters req) of
                     Inl err \<Rightarrow>
                       Returns ((\<lparr>cresp_Success = False, cresp_Message = err,
                                  cresp_Result = None, cresp_ErrorCode = ''FUNCTION_ERROR'',
                                  cresp_RequestId = creq_RequestId req\<rparr>, None),
                                say (LogFunctionFailed err) h1)
                   | Inr result \<Rightarrow>
                       Returns ((\<lparr>cresp_Success = True, cresp_Message = msgCallOk,
                                  cresp_Result = result, cresp_ErrorCode = [],
                                  cresp_RequestId = creq_RequestId req\<rparr>, None),
                                say (LogFunctionOk (creq_FunctionName req)) h1))))"

text \<open>
  \<open>connectToPlugin\<close>, after its two seconds of sleep. \<open>dial address\<close> is what
  \<open>grpc.Dial\<close> answers: an error text or the connection. The call passes the
  transport credentials and no other option, in particular not \<open>grpc.WithBlock()\<close>,
  so \<open>grpc.Dial\<close> does not wait for the connection to be established: it may
  return a connection in any state, also when no server listens at the address.
\<close>

definition connectToPlugin ::
  "(string \<Rightarrow> string + ClientConn) \<Rightarrow> nat \<Rightarrow> PluginHost \<Rightarrow> PluginHost" where
  "connectToPlugin dial a h =
     (let address = ''localhost:'' @ itoa (Port (objects h a));
          h1 = say (LogConnecting (ID (objects h a)) address) h
      in case dial address of
           Inl err \<Rightarrow> upd a (\<lambda>p. p\<lparr>Status := StatusError\<rparr>) (say (LogConnectFailed err) h1)
         | Inr conn \<Rightarrow>
             upd a (\<lambda>p. p\<lparr>Status := StatusRunning\<rparr>)
               (say (LogConnected (ID (objects h1 a)))
                  (upd a (\<lambda>p. p\<lparr>Connection := Some conn,
                                   Client := Some (NewPluginServiceClient conn)\<rparr>) h1)))"

subsection \<open>The plugin process (plugin.go)\<close>

text \<open>
  \<open>Plugin\<close> (fields prefixed \<open>plugin_\<close>), with the lines the plugin
  process has logged. The gRPC handles, the context and the configuration are not
  modelled.
\<close>

record Plugin =
  plugin_ID :: string
  plugin_Port :: int
  plugin_functions :: "string \<rightharpoonup> PluginFunction"
  plugin_isShuttingDown :: bool
  plugin_logged :: "log_line list"

definition plugin_say :: "log_line \<Rightarrow> Plugin \<Rightarrow> Plugin" where
  "plugin_say l p = p\<lparr>plugin_logged := plugin_logged p @ [l]\<rparr>"

text \<open>\<open>Plugin.CallPluginFunction\<close>, the handler of a call that reaches the plugin.\<close>

definition Plugin_CallPluginFunction ::
  "CallRequest \<Rightarrow> Plugin \<Rightarrow> (CallResponse \<times> string option) \<times> Plugin" where
  "Plugin_CallPluginFunction req p =
     (let p1 = plugin_say (LogCallReceived (creq_FunctionName req) (creq_RequestId req)) p
      in case plugin_functions p1 (creq_FunctionName req) of
           None \<Rightarrow>
             ((\<lparr>cresp_Success = False,
                cresp_Message = msgFunctionNotFound (creq_FunctionName req),
                cresp_Result = None, cresp_ErrorCode = ''FUNCTION_NOT_FOUND'',
                cresp_RequestId = creq_RequestId req\<rparr>, None),
              plugin_say (LogFunctionNotFound (creq_FunctionName req)) p1)
         | Some fn \<Rightarrow>
             (case fn (creq_Parameters req) of
                Inl err \<Rightarrow>
                  ((\<lparr>cresp_Success = False, cresp_Message = err, cresp_Result = None,
                     cresp_ErrorCode = ''FUNCTION_ERROR'',
                     cresp_RequestId = creq_RequestId req\<rparr>, None),
                   plugin_say (LogFunctionFailed err) p1)
              | Inr result \<Rightarrow>
                  ((\<lparr>cresp_Success = True, cresp_Message = msgCallOk, cresp_Result = result,
                     cresp_ErrorCode = [], cresp_RequestId = creq_RequestId req\<rparr>, None),
                   plugin_say (LogFunctionOk (creq_FunctionName req)) p1)))"

subsection \<open>Runs of the host\<close>

text \<open>
  What can happen to a host, one atomic step each: a call of its API, a call of its
  inbound RPC service, the completion of a goroutine (the connector dials, the
  monitored process exits, the heartbeat ticker fires), each with what the environment
  answers. \<open>EvRange\<close> stands for Go's freedom to visit the registry map in any order:
  it reorders the association list and changes nothing else. A goroutine's step needs
  the goroutine to be pending; the connector and the monitor end with their step.
\<close>

datatype event =
    EvStart "string \<Rightarrow> string + Listener"
  | EvLoadPlugin "string \<Rightarrow> string + PluginBasicInfo" Time string
  | EvStartPlugin "nat \<Rightarrow> Cmd \<Rightarrow> string + Process" Time string
  | EvStartPluginByPath "string \<Rightarrow> string + PluginBasicInfo" "nat \<Rightarrow> Cmd \<Rightarrow> string + Process" Time string
  | EvStopPlugin "Process \<Rightarrow> string option" string
  | EvStopAllPlugins "Process \<Rightarrow> string option"
  | EvRegisterHostFunction string HostFunction
  | EvRegisterPlugin RegisterRequest Time
  | EvHeartbeat HeartbeatRequest Time
  | EvCallHostFunction "PluginServiceClient \<Rightarrow> CallRequest \<Rightarrow> string + CallResponse" Time CallRequest
  | EvConnect "string \<Rightarrow> string + ClientConn" nat
  | EvMonitor "string option" "nat \<Rightarrow> Cmd \<Rightarrow> string + Process" Time nat
  | EvTick "nat \<Rightarrow> Cmd \<Rightarrow> string + Process" Time
  | EvRange "(string \<times> nat) list"

definition after :: "('a \<times> PluginHost) outcome \<Rightarrow> PluginHost outcome" where
  "after r = (case r of Panics \<Rightarrow> Panics | Hangs \<Rightarrow> Hangs | Returns (x, h) \<Rightarrow> Returns h)"

fun step :: "event \<Rightarrow> PluginHost \<Rightarrow> PluginHost outcome" where
  "step (EvStart listen) h = after (Start listen h)"
| "step (EvLoadPlugin getInfo now path) h = Returns (snd (LoadPlugin getInfo now path h))"
| "step (EvStartPlugin os now pluginID) h = Returns (snd (StartPlugin os now pluginID h))"
| "step (EvStartPluginByPath getInfo os now path) h =
     Returns (snd (StartPluginByPath getInfo os now path h))"
| "step (EvStopPlugin kill pluginID) h = Returns (snd (StopPlugin kill pluginID h))"
| "step (EvStopAllPlugins kill) h = Returns (StopAllPlugins kill h)"
| "step (EvRegisterHostFunction name fn) h = Returns (RegisterHostFunction name fn h)"
| "step (EvRegisterPlugin req now) h = Returns (snd (RegisterPlugin req now h))"
| "step (EvHeartbeat req now) h = Returns (snd (Heartbeat req now h))"
| "step (EvCallHostFunction rpc now req) h = after (CallHostFunction rpc now req h)"
| "step (EvConnect dial a) h =
     (if ConnectTask a \<in> set (goroutines h)
      then Returns (connectToPlugin dial a (h\<lparr>goroutines := remove1 (ConnectTask a) (goroutines h)\<rparr>))
      else Returns h)"
| "step (EvMonitor waitErr os now a) h =
     (if MonitorTask a \<in> set (goroutines h)
      then Returns (monitorPluginProcess waitErr os now a
                      (h\<lparr>goroutines := remove1 (MonitorTask a) (goroutines h)\<rparr>))
      else Returns h)"
| "step (EvTick os now) h =
     (if HeartbeatTask \<in> set (goroutines h) then Returns (checkPluginsHealth os now h)
      else Returns h)"
| "step (EvRange r) h =
     (if set r = set (registry h) \<and> distinct (map fst r) then Returns (h\<lparr>registry := r\<rparr>)
      else Returns h)"

fun run :: "event list \<Rightarrow> PluginHost \<Rightarrow> PluginHost outcome" where
  "run [] h = Returns h"
| "run (e # es) h =
     (case step e h of Panics \<Rightarrow> Panics | Hangs \<Rightarrow> Hangs | Returns h' \<Rightarrow> run es h')"

subsection \<open>Invariants of the store\<close>

text \<open>A running record holds its outbound connection and client.\<close>

definition conn_inv :: "PluginHost \<Rightarrow> bool" where
  "conn_inv h \<longleftrightarrow>
     (\<forall>a. Status (objects h a) = StatusRunning \<longrightarrow>
        Connection (objects h a) \<noteq> None \<and> Client (objects h a) \<noteq> None)"

text \<open>With auto-restart on, the restart counter does not exceed its bound.\<close>

definition restart_inv :: "PluginHost \<Rightarrow> bool" where
  "restart_inv h \<longleftrightarrow>
     (\<forall>a. AutoRestart (objects h a) \<longrightarrow> RestartCount (objects h a) \<le> MaxRestarts (objects h a))"


subsection \<open>Example values\<close>

text \<open>
  A plugin \<open>calc\<close> that the host loads from \<open>./calc.exe\<close>, starts, registers and
  connects to; an environment in which every process starts and every dial succeeds.
\<close>

definition demo_info :: PluginBasicInfo where
  "demo_info =
     \<lparr>info_ID = ''calc'', info_Name = ''Calculator'', info_Version = ''1.0.0'',
      info_Description = ''adds numbers'', info_Logo = [], info_Capabilities = [''math''],
      info_Functions = [''Add'']\<rparr>"

definition demo_getInfo :: "string \<Rightarrow> string + PluginBasicInfo" where
  "demo_getInfo path = Inr demo_info"

definition demo_os :: "nat \<Rightarrow> Cmd \<Rightarrow> string + Process" where
  "demo_os n cmd = Inr (4000 + n)"

definition demo_register :: RegisterRequest where
  "demo_register =
     \<lparr>rreq_PluginId = ''calc'', rreq_PluginName = ''Calculator'', rreq_Version = ''1.0.0'',
      rreq_Description = ''adds numbers'', rreq_Port = 40001, rreq_Capabilities = [''math'']\<rparr>"

definition demo_dial :: "string \<Rightarrow> string + ClientConn" where
  "demo_dial address = Inr (Conn 7 Ready)"

definition demo_fn :: HostFunction where
  "demo_fn ps = Inr None"

definition demo_events :: "event list" where
  "demo_events =
     [EvLoadPlugin demo_getInfo 1000 ''./calc.exe'', EvStartPlugin demo_os 2000 ''calc'',
      EvRegisterPlugin demo_register 3000, EvConnect demo_dial 0]"

definition demo_host0 :: PluginHost where
  "demo_host0 = NewPluginHost None demo_fn demo_fn demo_fn"

definition demo_host1 :: PluginHost where
  "demo_host1 = snd (LoadPlugin demo_getInfo 1000 ''./calc.exe'' demo_host0)"

definition demo_host2 :: PluginHost where
  "demo_host2 = snd (StartPlugin demo_os 2000 ''calc'' demo_host1)"

definition demo_host3 :: PluginHost where
  "demo_host3 = snd (RegisterPlugin demo_register 3000 demo_host2)"

definition demo_host4 :: PluginHost where
  "demo_host4 =
     connectToPlugin demo_dial 0
       (demo_host3\<lparr>goroutines := remove1 (ConnectTask 0) (goroutines demo_host3)\<rparr>)"

text \<open>A plugin process with two functions, a call request, and a remote end that
  times out on \<open>Add\<close> and otherwise answers as that plugin does.\<close>

definition demo_param :: Parameter where
  "demo_param = \<lparr>param_Name = ''a'', param_Type = STRING, param_Value = ''x''\<rparr>"

definition demo_plugin :: Plugin where
  "demo_plugin =
     \<lparr>plugin_ID = ''calc'', plugin_Port = 40001,
      plugin_functions =
        [''Echo'' \<mapsto> (\<lambda>ps. Inr (case ps of [] \<Rightarrow> None | p # _ \<Rightarrow> Some p)),
         ''Fail'' \<mapsto> (\<lambda>ps. Inl ''boom'')],
      plugin_isShuttingDown = False, plugin_logged = []\<rparr>"

definition demo_call :: "string \<Rightarrow> (string \<rightharpoonup> string) \<Rightarrow> CallRequest" where
  "demo_call name md =
     \<lparr>creq_FunctionName = name, creq_Parameters = [demo_param], creq_RequestId = ''req-7'',
      creq_Metadata = md\<rparr>"

definition demo_rpc :: "PluginServiceClient \<Rightarrow> CallRequest \<Rightarrow> string + CallResponse" where
  "demo_rpc c req =
     (if creq_FunctionName req = ''Add'' then Inl ''deadline exceeded''
      else Inr (fst (fst (Plugin_CallPluginFunction req demo_plugin))))"

definition demo_heartbeat :: "string \<Rightarrow> HeartbeatRequest" where
  "demo_heartbeat i = \<lparr>hreq_PluginId = i, hreq_Timestamp = 5, hreq_Status = ''running''\<rparr>"















text \<open>
  The configuration of the README's quick start, \<open>HostConfig{Port: 50051, DebugMode:
  true}\<close>: every other field holds its zero value, and \<open>PortRange\<close> is the nil slice.
\<close>

definition readme_config :: HostConfig where
  "readme_config =
     \<lparr>cfg_Port = 50051, PortRange = [], DebugMode = True, LogLevel = [], LogDir = [],
      HeartbeatInterval = 0, MaxHeartbeatMiss = 0, AutoRestartPlugin = False,
      EnablePluginReconnect = False\<rparr>"

section \<open>Lemmas\<close>

subsection \<open>Reading the state after a write\<close>

lemma objects_upd [simp]: "objects (upd a f h) = (objects h)(a := f (objects h a))"
  by (simp add: upd_def)
lemma objects_say [simp]: "objects (say l h) = objects h"
  by (simp add: say_def)
lemma objects_spawn [simp]: "objects (spawn t h) = objects h"
  by (simp add: spawn_def)
lemma registry_upd [simp]: "registry (upd a f h) = registry h"
  by (simp add: upd_def)
lemma registry_say [simp]: "registry (say l h) = registry h"
  by (simp add: say_def)
lemma registry_spawn [simp]: "registry (spawn t h) = registry h"
  by (simp add: spawn_def)
lemma Get_None_iff: "Get h i = None \<longleftrightarrow> i \<notin> fst ` set (registry h)"
  by (simp add: Get_def map_of_eq_None_iff)

lemma Get_say [simp]: "Get (say l h) i = Get h i"
  by (simp add: Get_def)
lemma Get_upd [simp]: "Get (upd a f h) i = Get h i"
  by (simp add: Get_def)
lemma Get_spawn [simp]: "Get (spawn t h) i = Get h i"
  by (simp add: Get_def)

lemma callPluginFunction_not_found:
  "Get h x = None \<Longrightarrow>
     callPluginFunction rpc now req x h =
       Returns ((\<lparr>cresp_Success = False, cresp_Message = msgTargetNotExist x,
                  cresp_Result = None, cresp_ErrorCode = ''TARGET_PLUGIN_NOT_FOUND'',
                  cresp_RequestId = creq_RequestId req\<rparr>, None),
                say (LogInterPluginCall (sourceOf req) x (creq_FunctionName req)) h)"
  by (simp add: callPluginFunction_def Let_def)

lemma callPluginFunction_not_running:
  "Get h x = Some a \<Longrightarrow> Status (objects h a) \<noteq> StatusRunning \<Longrightarrow>
     callPluginFunction rpc now req x h =
       Returns ((\<lparr>cresp_Success = False,
                  cresp_Message = msgTargetStatus x (status_string (Status (objects h a))),
                  cresp_Result = None, cresp_ErrorCode = ''TARGET_PLUGIN_NOT_RUNNING'',
                  cresp_RequestId = creq_RequestId req\<rparr>, None),
                say (LogInterPluginCall (sourceOf req) x (creq_FunctionName req)) h)"
  by (simp add: callPluginFunction_def Let_def)

lemma callPluginFunction_running:
  "Get h x = Some a \<Longrightarrow> Status (objects h a) = StatusRunning \<Longrightarrow>
     callPluginFunction rpc now req x h =
       (case Client (objects h a) of
          None \<Rightarrow> Panics
        | Some c \<Rightarrow>
            (case rpc c (enhancedReq now req (sourceOf req) x) of
               Inl err \<Rightarrow>
                 Returns ((\<lparr>cresp_Success = False, cresp_Message = msgInterPluginFailed err,
                            cresp_Result = None, cresp_ErrorCode = ''INTER_PLUGIN_CALL_ERROR'',
                            cresp_RequestId = creq_RequestId req\<rparr>, None),
                          say (LogInterPluginFailed err)
                            (say (LogInterPluginCall (sourceOf req) x (creq_FunctionName req)) h))
             | Inr resp \<Rightarrow>
                 Returns ((resp, None),
                          say (LogInterPluginOk (sourceOf req) x (creq_FunctionName req))
                            (say (LogInterPluginCall (sourceOf req) x (creq_FunctionName req)) h))))"
  by (simp add: callPluginFunction_def Let_def)

lemma callPluginFunction_table:
  "map_outcome fst (callPluginFunction rpc now req x (h\<lparr>hostFunctions := fs\<rparr>))
     = map_outcome fst (callPluginFunction rpc now req x h)"
proof (cases "Get h x")
  case None
  then have "Get (h\<lparr>hostFunctions := fs\<rparr>) x = None" by (simp add: Get_def)
  with None show ?thesis by (simp add: callPluginFunction_not_found)
next
  case (Some a)
  then have g: "Get (h\<lparr>hostFunctions := fs\<rparr>) x = Some a" by (simp add: Get_def)
  show ?thesis
  proof (cases "Status (objects h a) = StatusRunning")
    case True
    with Some g show ?thesis
      by (simp add: callPluginFunction_running split: option.split sum.split)
  next
    case False
    with Some g show ?thesis by (simp add: callPluginFunction_not_running)
  qed
qed


subsection \<open>Every step keeps a running record connected\<close>

lemma conn_inv_say [simp]: "conn_inv (say l h) = conn_inv h"
  by (simp add: conn_inv_def)
lemma conn_inv_spawn [simp]: "conn_inv (spawn t h) = conn_inv h"
  by (simp add: conn_inv_def)

lemma conn_inv_startPluginProcess:
  "conn_inv h \<Longrightarrow> conn_inv (snd (startPluginProcess os now a h))"
  by (auto simp: conn_inv_def startPluginProcess_def Let_def split: sum.split)

lemma conn_inv_stopPluginProcess:
  "conn_inv h \<Longrightarrow> conn_inv (snd (stopPluginProcess kill a h))"
  by (auto simp: conn_inv_def stopPluginProcess_def Let_def split: option.split)

lemma conn_inv_monitorPluginProcess:
  "conn_inv h \<Longrightarrow> conn_inv (monitorPluginProcess waitErr os now a h)"
  by (auto simp: conn_inv_def monitorPluginProcess_def startPluginProcess_def Let_def split: option.split sum.split)

lemma conn_inv_checkPluginHealth:
  "conn_inv h \<Longrightarrow> conn_inv (checkPluginHealth os now a h)"
  by (auto simp: conn_inv_def checkPluginHealth_def startPluginProcess_def Let_def split: option.split sum.split)

lemma conn_inv_foldl:
  assumes "\<And>h a. conn_inv h \<Longrightarrow> conn_inv (f h a)"
  shows "conn_inv h \<Longrightarrow> conn_inv (foldl f h xs)"
  by (induction xs arbitrary: h) (simp_all add: assms)

lemma conn_inv_checkPluginsHealth:
  "conn_inv h \<Longrightarrow> conn_inv (checkPluginsHealth os now h)"
  unfolding checkPluginsHealth_def by (rule conn_inv_foldl) (simp add: conn_inv_checkPluginHealth)

lemma conn_inv_StopAllPlugins:
  "conn_inv h \<Longrightarrow> conn_inv (StopAllPlugins kill h)"
  unfolding StopAllPlugins_def by (rule conn_inv_foldl) (simp add: conn_inv_stopPluginProcess)

lemma conn_inv_registry [simp]: "conn_inv (h\<lparr>registry := r\<rparr>) = conn_inv h"
  by (simp add: conn_inv_def)
lemma conn_inv_goroutines [simp]: "conn_inv (h\<lparr>goroutines := r\<rparr>) = conn_inv h"
  by (simp add: conn_inv_def)
lemma conn_inv_hostFunctions [simp]: "conn_inv (h\<lparr>hostFunctions := r\<rparr>) = conn_inv h"
  by (simp add: conn_inv_def)

lemma conn_inv_LoadPlugin:
  "conn_inv h \<Longrightarrow> conn_inv (snd (LoadPlugin getInfo now path h))"
  by (auto simp: conn_inv_def LoadPlugin_def Register_def Let_def split: sum.split)

lemma conn_inv_StartPlugin:
  "conn_inv h \<Longrightarrow> conn_inv (snd (StartPlugin os now i h))"
  by (simp add: StartPlugin_def conn_inv_startPluginProcess split: option.split)

lemma conn_inv_StartPluginByPath:
  assumes "conn_inv h"
  shows "conn_inv (snd (StartPluginByPath getInfo os now path h))"
proof (cases "find (\<lambda>a. ExecutablePath (objects h a) = path) (List h)")
  case (Some a)
  with assms show ?thesis by (simp add: StartPluginByPath_def)
next
  case None
  obtain r h1 where L: "LoadPlugin getInfo now path h = (r, h1)"
    by (cases "LoadPlugin getInfo now path h")
  have i1: "conn_inv h1"
    using conn_inv_LoadPlugin[OF assms, of getInfo now path] L by simp
  show ?thesis
  proof (cases r)
    case (Inl e)
    with None L i1 show ?thesis by (simp add: StartPluginByPath_def)
  next
    case (Inr a)
    obtain e h2 where S: "StartPlugin os now (ID (objects h1 a)) h1 = (e, h2)"
      by (cases "StartPlugin os now (ID (objects h1 a)) h1")
    have "conn_inv h2"
      using conn_inv_StartPlugin[OF i1, of os now "ID (objects h1 a)"] S by simp
    with None L Inr S show ?thesis by (simp add: StartPluginByPath_def)
  qed
qed

lemma conn_inv_StopPlugin:
  "conn_inv h \<Longrightarrow> conn_inv (snd (StopPlugin kill i h))"
  by (simp add: StopPlugin_def conn_inv_stopPluginProcess split: option.split)

lemma conn_inv_RegisterPlugin:
  "conn_inv h \<Longrightarrow> conn_inv (snd (RegisterPlugin req now h))"
  by (auto simp: conn_inv_def RegisterPlugin_def Register_def Unregister_def Let_def split: option.split)

lemma conn_inv_Heartbeat:
  "conn_inv h \<Longrightarrow> conn_inv (snd (Heartbeat req now h))"
  by (auto simp: conn_inv_def Heartbeat_def Let_def split: option.split)

lemma conn_inv_connectToPlugin:
  "conn_inv h \<Longrightarrow> conn_inv (connectToPlugin dial a h)"
  by (auto simp: conn_inv_def connectToPlugin_def Let_def split: sum.split)

lemma conn_inv_callPluginFunction:
  "conn_inv h \<Longrightarrow> callPluginFunction rpc now req x h = Returns (r, h') \<Longrightarrow> conn_inv h'"
  by (auto simp: callPluginFunction_def Let_def split: option.splits sum.splits if_splits)

lemma conn_inv_CallHostFunction:
  "conn_inv h \<Longrightarrow> CallHostFunction rpc now req h = Returns (r, h') \<Longrightarrow> conn_inv h'"
  by (auto simp: CallHostFunction_def Let_def conn_inv_callPluginFunction
      split: option.splits sum.splits)

lemma conn_inv_listener [simp]:
  "conn_inv (h\<lparr>listener := l, actualPort := p, grpcServer := g\<rparr>) = conn_inv h"
  by (simp add: conn_inv_def)
lemma conn_inv_ticker [simp]: "conn_inv (h\<lparr>heartbeatTicker := t\<rparr>) = conn_inv h"
  by (simp add: conn_inv_def)

lemma tryPorts_objects':
  assumes "tryPorts listen port maxPort h = Some y"
  shows "objects (snd y) = objects h"
proof (rule tryPorts.raw_induct[where P = "\<lambda>_ _ _ h y. objects (snd y) = objects h", OF _ assms])
  fix f l p m g y'
  assume IH: "\<And>p m g b y. f p m g b = Some y \<Longrightarrow> objects (snd y) = objects b"
    and body: "(if p \<le> m
      then case l ('':'' @ itoa p) of
           Inl err \<Rightarrow> f l (next_port p) m (say (LogPortBusy p) g)
         | Inr li \<Rightarrow> Some (Some (li, p), say (LogPortFound p) g)
      else Some (None, g)) = Some y'"
  show "objects (snd y') = objects g"
  proof (cases "p \<le> m")
    case False
    with body show ?thesis by auto
  next
    case True
    show ?thesis
    proof (cases "l ('':'' @ itoa p)")
      case (Inl err)
      with True body have "f l (next_port p) m (say (LogPortBusy p) g) = Some y'" by simp
      from IH[OF this] show ?thesis by simp
    next
      case (Inr li)
      with True body show ?thesis by auto
    qed
  qed
qed

lemma tryPorts_objects:
  "tryPorts listen port maxPort h = Some (r, h') \<Longrightarrow> objects h' = objects h"
  using tryPorts_objects'[of listen port maxPort h "(r, h')"] by simp

lemma conn_inv_Start:
  "conn_inv h \<Longrightarrow> Start listen h = Returns (r, h') \<Longrightarrow> conn_inv h'"
  by (auto simp: Start_def startGrpcServer_def startMonitoring_def Let_def conn_inv_def
      split: list.splits option.splits outcome.splits prod.splits if_splits
      dest!: tryPorts_objects)

lemma conn_inv_step:
  "conn_inv h \<Longrightarrow> step e h = Returns h' \<Longrightarrow> conn_inv h'"
proof (cases e)
  case (EvStart listen)
  then show "conn_inv h \<Longrightarrow> step e h = Returns h' \<Longrightarrow> conn_inv h'"
    by (auto simp: after_def split: outcome.splits dest: conn_inv_Start)
next
  case (EvCallHostFunction rpc now req)
  then show "conn_inv h \<Longrightarrow> step e h = Returns h' \<Longrightarrow> conn_inv h'"
    by (auto simp: after_def split: outcome.splits dest: conn_inv_CallHostFunction)
qed (auto simp: conn_inv_LoadPlugin conn_inv_StartPlugin conn_inv_StartPluginByPath
      conn_inv_StopPlugin conn_inv_StopAllPlugins RegisterHostFunction_def
      conn_inv_RegisterPlugin conn_inv_Heartbeat conn_inv_connectToPlugin
      conn_inv_monitorPluginProcess conn_inv_checkPluginsHealth split: if_splits)

lemma conn_inv_run:
  "conn_inv h \<Longrightarrow> run es h = Returns h' \<Longrightarrow> conn_inv h'"
proof (induction es arbitrary: h)
  case Nil
  then show ?case by simp
next
  case (Cons e es)
  then show ?case
    by (auto split: outcome.splits dest: conn_inv_step)
qed

lemma conn_inv_NewPluginHost: "conn_inv (NewPluginHost cfg f1 f2 f3)"
  by (simp add: NewPluginHost_def RegisterHostFunction_def conn_inv_def zeroPluginInfo_def)

subsection \<open>The example run\<close>

lemmas host_defs = NewPluginHost_def RegisterHostFunction_def DefaultHostConfig_def
  LoadPlugin_def StartPlugin_def startPluginProcess_def RegisterPlugin_def connectToPlugin_def
  Register_def Unregister_def Get_def List_def upd_def say_def spawn_def Let_def
lemmas demo_defs = demo_getInfo_def demo_info_def demo_os_def demo_register_def demo_dial_def

lemma demo_host1_registry: "registry demo_host1 = [(''calc'', 0)]"
  by (simp add: demo_host1_def demo_host0_def demo_defs host_defs)
lemma demo_host1_object: "objects demo_host1 0 =
   \<lparr>ID = ''calc'', Name = ''Calculator'', Version = ''1.0.0'', Description = ''adds numbers'',
    Port = 0, Capabilities = [''math''], Functions = [''Add''], ExecutablePath = ''./calc.exe'',
    Process = None, Command = None, Client = None, Connection = None, Status = StatusStopped,
    StartTime = zeroTime, LastHeartbeat = zeroTime, AutoRestart = True, MaxRestarts = 3,
    RestartCount = 0\<rparr>"
  by (simp add: demo_host1_def demo_host0_def demo_defs host_defs)

lemma demo_host2_registry: "registry demo_host2 = [(''calc'', 0)]"
  by (simp add: demo_host2_def StartPlugin_def startPluginProcess_def Get_def Let_def demo_os_def
      demo_host1_registry demo_host1_object)
lemma demo_host2_status: "Status (objects demo_host2 0) = StatusStarting"
  by (simp add: demo_host2_def StartPlugin_def startPluginProcess_def Get_def Let_def demo_os_def
      demo_host1_registry demo_host1_object)
lemma demo_host2_id: "ID (objects demo_host2 0) = ''calc''"
  by (simp add: demo_host2_def StartPlugin_def startPluginProcess_def Get_def Let_def demo_os_def
      demo_host1_registry demo_host1_object)

lemma demo_host3_registry: "registry demo_host3 = [(''calc'', 0)]"
  by (simp add: demo_host3_def RegisterPlugin_def List_def Let_def demo_register_def
      demo_host2_registry demo_host2_status demo_host2_id)
lemma demo_host3_goroutines: "ConnectTask 0 \<in> set (goroutines demo_host3)"
  by (simp add: demo_host3_def RegisterPlugin_def List_def Let_def demo_register_def spawn_def say_def
      demo_host2_registry demo_host2_status demo_host2_id)

lemma demo_host4_registry: "registry demo_host4 = [(''calc'', 0)]"
  by (simp add: demo_host4_def connectToPlugin_def Let_def demo_dial_def demo_host3_registry)
lemma demo_host4_running: "Status (objects demo_host4 0) = StatusRunning"
  by (simp add: demo_host4_def connectToPlugin_def Let_def demo_dial_def)
lemma demo_host4_client: "Client (objects demo_host4 0) = Some (NewPluginServiceClient (Conn 7 Ready))"
  by (simp add: demo_host4_def connectToPlugin_def Let_def demo_dial_def)

lemma demo_run: "run demo_events demo_host0 = Returns demo_host4"
  by (simp add: demo_events_def demo_host4_def demo_host3_goroutines
      demo_host3_def[symmetric] demo_host2_def[symmetric] demo_host1_def[symmetric])

lemma demo_run2: "run (take 2 demo_events) demo_host0 = Returns demo_host2"
  by (simp add: demo_events_def demo_host2_def[symmetric] demo_host1_def[symmetric])


subsection \<open>The relay on a host whose running records are connected\<close>

lemma relay_returns:
  assumes inv: "conn_inv h"
  shows "\<exists>resp h'. callPluginFunction rpc now req x h = Returns ((resp, None), h')"
proof (cases "Get h x")
  case None
  then show ?thesis by (simp add: callPluginFunction_not_found)
next
  case (Some a)
  show ?thesis
  proof (cases "Status (objects h a) = StatusRunning")
    case False
    with Some show ?thesis by (simp add: callPluginFunction_not_running)
  next
    case True
    with inv obtain c where c: "Client (objects h a) = Some c"
      by (auto simp: conn_inv_def)
    show ?thesis
    proof (cases "rpc c (enhancedReq now req (sourceOf req) x)")
      case (Inl err)
      with Some True c show ?thesis by (simp add: callPluginFunction_running)
    next
      case (Inr resp)
      with Some True c show ?thesis by (simp add: callPluginFunction_running)
    qed
  qed
qed


subsection \<open>Only the connector sets a record running\<close>























subsection \<open>The restart budget\<close>

lemma restart_inv_say [simp]: "restart_inv (say l h) = restart_inv h"
  by (simp add: restart_inv_def)
lemma restart_inv_spawn [simp]: "restart_inv (spawn t h) = restart_inv h"
  by (simp add: restart_inv_def)












lemma restart_inv_fields [simp]:
  "restart_inv (h\<lparr>registry := r\<rparr>) = restart_inv h"
  "restart_inv (h\<lparr>goroutines := ts\<rparr>) = restart_inv h"
  "restart_inv (h\<lparr>hostFunctions := fs\<rparr>) = restart_inv h"
  by (simp_all add: restart_inv_def)




























subsection \<open>The heartbeat sweep\<close>


lemma health_config [simp]: "config (checkPluginHealth os now a h) = config h"
  by (simp add: checkPluginHealth_def startPluginProcess_def Let_def upd_def say_def spawn_def
      split: sum.split)















subsection \<open>The example run with a connection that is not ready\<close>



subsection \<open>The example run under a product that overflows\<close>

















subsection \<open>Binding the host's port\<close>

lemma config_NewPluginHost [simp]:
  "config (NewPluginHost (Some c) f1 f2 f3) = c"
  by (simp add: NewPluginHost_def RegisterHostFunction_def say_def)

lemma tryPorts_exhausted:
  assumes "maxPort < 2 ^ 63 - 1"
    and "\<forall>p. port \<le> p \<and> p \<le> maxPort \<longrightarrow> (\<exists>err. listen ('':'' @ itoa p) = Inl err)"
  shows "\<exists>h'. tryPorts listen port maxPort h = Some (None, h')"
  using assms
proof (induction "nat (maxPort + 1 - port)" arbitrary: port h)
  case 0
  then have "\<not> port \<le> maxPort" by simp
  then show ?case by (subst tryPorts.simps) simp
next
  case (Suc n)
  then have le: "port \<le> maxPort" by linarith
  with Suc.prems(2) obtain err where e: "listen ('':'' @ itoa port) = Inl err" by blast
  from le Suc.prems(1) have np: "next_port port = port + 1" by (simp add: next_port_def)
  have n: "n = nat (maxPort + 1 - (port + 1))" using Suc.hyps(2) by linarith
  have all: "\<forall>p. port + 1 \<le> p \<and> p \<le> maxPort \<longrightarrow> (\<exists>err. listen ('':'' @ itoa p) = Inl err)"
    using Suc.prems(2) by auto
  from Suc.hyps(1)[OF n Suc.prems(1) all, of "say (LogPortBusy port) h"]
  obtain h' where "tryPorts listen (port + 1) maxPort (say (LogPortBusy port) h) = Some (None, h')"
    by blast
  with le e np show ?case by (subst tryPorts.simps) simp
qed

lemma tryPorts_first_free:
  assumes "maxPort < 2 ^ 63 - 1" and "port \<le> q" and "q \<le> maxPort"
    and "listen ('':'' @ itoa q) = Inr l"
    and "\<forall>p. port \<le> p \<and> p < q \<longrightarrow> (\<exists>err. listen ('':'' @ itoa p) = Inl err)"
  shows "\<exists>h'. tryPorts listen port maxPort h = Some (Some (l, q), h')"
  using assms
proof (induction "nat (q - port)" arbitrary: port h)
  case 0
  then have "port = q" by simp
  with 0 show ?case by (subst tryPorts.simps) simp
next
  case (Suc n)
  then have lt: "port < q" by linarith
  with Suc.prems obtain err where e: "listen ('':'' @ itoa port) = Inl err" by auto
  from lt Suc.prems(1,3) have np: "next_port port = port + 1" by (simp add: next_port_def)
  have n: "n = nat (q - (port + 1))" using Suc.hyps(2) by linarith
  have all: "\<forall>p. port + 1 \<le> p \<and> p < q \<longrightarrow> (\<exists>err. listen ('':'' @ itoa p) = Inl err)"
    using Suc.prems(5) by auto
  from lt have le: "port + 1 \<le> q" by simp
  from Suc.hyps(1)[OF n Suc.prems(1) le Suc.prems(3,4) all, of "say (LogPortBusy port) h"]
  obtain h' where
    "tryPorts listen (port + 1) maxPort (say (LogPortBusy port) h) = Some (Some (l, q), h')"
    by blast
  with lt Suc.prems(3) e np show ?case by (subst tryPorts.simps) simp
qed

lemma startGrpcServer_range:
  assumes pr: "PortRange (config h) = r0 # r1 # rs"
    and lo: "startPort = (if cfg_Port (config h) > 0 then cfg_Port (config h) else r0)"
    and hi: "maxPort = (if cfg_Port (config h) > 0 then cfg_Port (config h) else r1)"
    and bound: "maxPort < 2 ^ 63 - 1"
  shows "(\<forall>p. startPort \<le> p \<and> p \<le> maxPort \<longrightarrow> (\<exists>err. listen ('':'' @ itoa p) = Inl err)) \<longrightarrow>
           (\<exists>h'. startGrpcServer listen h = Returns (Some (errNoAvailablePort startPort maxPort), h'))"
    and "\<forall>q l. startPort \<le> q \<and> q \<le> maxPort \<and> listen ('':'' @ itoa q) = Inr l
            \<and> (\<forall>p. startPort \<le> p \<and> p < q \<longrightarrow> (\<exists>err. listen ('':'' @ itoa p) = Inl err)) \<longrightarrow>
           (\<exists>h'. startGrpcServer listen h = Returns (None, h')
                  \<and> listener h' = Some l \<and> actualPort h' = q)"
proof -
  show "(\<forall>p. startPort \<le> p \<and> p \<le> maxPort \<longrightarrow> (\<exists>err. listen ('':'' @ itoa p) = Inl err)) \<longrightarrow>
           (\<exists>h'. startGrpcServer listen h = Returns (Some (errNoAvailablePort startPort maxPort), h'))"
  proof
    assume a: "\<forall>p. startPort \<le> p \<and> p \<le> maxPort \<longrightarrow> (\<exists>err. listen ('':'' @ itoa p) = Inl err)"
    from tryPorts_exhausted[OF bound a, of h] obtain h' where
      "tryPorts listen startPort maxPort h = Some (None, h')" by blast
    then show "\<exists>h'. startGrpcServer listen h = Returns (Some (errNoAvailablePort startPort maxPort), h')"
      using pr lo hi by (simp add: startGrpcServer_def Let_def)
  qed
  show "\<forall>q l. startPort \<le> q \<and> q \<le> maxPort \<and> listen ('':'' @ itoa q) = Inr l
            \<and> (\<forall>p. startPort \<le> p \<and> p < q \<longrightarrow> (\<exists>err. listen ('':'' @ itoa p) = Inl err)) \<longrightarrow>
           (\<exists>h'. startGrpcServer listen h = Returns (None, h')
                  \<and> listener h' = Some l \<and> actualPort h' = q)"
  proof (intro allI impI)
    fix q l
    assume a: "startPort \<le> q \<and> q \<le> maxPort \<and> listen ('':'' @ itoa q) = Inr l
            \<and> (\<forall>p. startPort \<le> p \<and> p < q \<longrightarrow> (\<exists>err. listen ('':'' @ itoa p) = Inl err))"
    then have "\<exists>h'. tryPorts listen startPort maxPort h = Some (Some (l, q), h')"
      using tryPorts_first_free[OF bound, of startPort q listen l h] by blast
    then obtain h' where "tryPorts listen startPort maxPort h = Some (Some (l, q), h')" by blast
    then show "\<exists>h'. startGrpcServer listen h = Returns (None, h')
                  \<and> listener h' = Some l \<and> actualPort h' = q"
      using pr lo hi by (simp add: startGrpcServer_def Let_def spawn_def)
  qed
qed

lemma Start_single_port_busy:
  assumes "PortRange (config h) = [50051, 50051]" and "cfg_Port (config h) = 0"
    and "listen '':50051'' = Inl err"
  shows "\<exists>h'. Start listen h = Returns (Some (errStartServer (errNoAvailablePort 50051 50051)), h')"
proof -
  have i: "itoa 50051 = ''50051''" by (simp add: itoa_def digit_def)
  have a: "\<forall>p. (50051::int) \<le> p \<and> p \<le> 50051 \<longrightarrow> (\<exists>err. listen ('':'' @ itoa p) = Inl err)"
  proof (intro allI impI)
    fix p :: int
    assume "50051 \<le> p \<and> p \<le> 50051"
    then have "p = 50051" by simp
    with assms(3) i show "\<exists>err. listen ('':'' @ itoa p) = Inl err" by simp
  qed
  have c: "config (say LogHostStarting h) = config h" by (simp add: say_def)
  from startGrpcServer_range(1)[of "say LogHostStarting h" 50051 50051 "[]" 50051 50051 listen]
    assms(1,2) a c
  obtain h' where "startGrpcServer listen (say LogHostStarting h)
      = Returns (Some (errNoAvailablePort 50051 50051), h')" by auto
  then show ?thesis by (simp add: Start_def)
qed

section \<open>The claims\<close>

text \<open>
  Claim C1. A call that reaches the host's inbound endpoint with the metadata key
  \<open>target_plugin_id\<close> set to \<open>x\<close> is handled by the relay alone: its response is
  the same whatever the host's function table holds, also when the table has a function
  of the requested name. If \<open>x\<close> is not an ID of the registry the response has
  \<open>success = false\<close> and the code \<open>TARGET_PLUGIN_NOT_FOUND\<close>; if \<open>x\<close> is
  registered and its record is not running, \<open>success = false\<close> and the code
  \<open>TARGET_PLUGIN_NOT_RUNNING\<close>.
\<close>

theorem relay_not_host_table:
  "creq_Metadata req ''target_plugin_id'' = Some x \<Longrightarrow>
     CallHostFunction rpc now req h = callPluginFunction rpc now req x h
     \<and> map_outcome fst (CallHostFunction rpc now req (h\<lparr>hostFunctions := fs\<rparr>))
         = map_outcome fst (CallHostFunction rpc now req h)
     \<and> (x \<notin> fst ` set (registry h) \<longrightarrow>
          map_outcome fst (CallHostFunction rpc now req h) =
            Returns (\<lparr>cresp_Success = False, cresp_Message = msgTargetNotExist x,
                      cresp_Result = None, cresp_ErrorCode = ''TARGET_PLUGIN_NOT_FOUND'',
                      cresp_RequestId = creq_RequestId req\<rparr>, None))
     \<and> (\<forall>a. Get h x = Some a \<and> Status (objects h a) \<noteq> StatusRunning \<longrightarrow>
          map_outcome fst (CallHostFunction rpc now req h) =
            Returns (\<lparr>cresp_Success = False,
                      cresp_Message = msgTargetStatus x (status_string (Status (objects h a))),
                      cresp_Result = None, cresp_ErrorCode = ''TARGET_PLUGIN_NOT_RUNNING'',
                      cresp_RequestId = creq_RequestId req\<rparr>, None))"
  by (simp add: CallHostFunction_def callPluginFunction_table callPluginFunction_not_found
        callPluginFunction_not_running Get_None_iff[symmetric])

theorem relay_not_host_table_witness:
  "creq_Metadata (demo_call ''GetSystemTime'' [''target_plugin_id'' \<mapsto> ''ghost''])
       ''target_plugin_id'' = Some ''ghost''
   \<and> hostFunctions demo_host4 ''GetSystemTime'' = Some demo_fn
   \<and> ''ghost'' \<notin> fst ` set (registry demo_host4)
   \<and> map_outcome fst (CallHostFunction demo_rpc 5000
          (demo_call ''GetSystemTime'' [''target_plugin_id'' \<mapsto> ''ghost'']) demo_host4)
       = Returns (\<lparr>cresp_Success = False, cresp_Message = msgTargetNotExist ''ghost'',
                   cresp_Result = None, cresp_ErrorCode = ''TARGET_PLUGIN_NOT_FOUND'',
                   cresp_RequestId = ''req-7''\<rparr>, None)
   \<and> Get demo_host2 ''calc'' = Some 0
   \<and> Status (objects demo_host2 0) = StatusStarting
   \<and> map_outcome fst (CallHostFunction demo_rpc 5000
          (demo_call ''GetSystemTime'' [''target_plugin_id'' \<mapsto> ''calc'']) demo_host2)
       = Returns (\<lparr>cresp_Success = False, cresp_Message = msgTargetStatus ''calc'' ''starting'',
                   cresp_Result = None, cresp_ErrorCode = ''TARGET_PLUGIN_NOT_RUNNING'',
                   cresp_RequestId = ''req-7''\<rparr>, None)"
proof -
  have m: "creq_Metadata (demo_call ''GetSystemTime'' [''target_plugin_id'' \<mapsto> ''ghost''])
       ''target_plugin_id'' = Some ''ghost''"
    by (simp add: demo_call_def)
  have m2: "creq_Metadata (demo_call ''GetSystemTime'' [''target_plugin_id'' \<mapsto> ''calc''])
       ''target_plugin_id'' = Some ''calc''"
    by (simp add: demo_call_def)
  have n: "''ghost'' \<notin> fst ` set (registry demo_host4)"
    by (simp add: demo_host4_registry)
  have g: "Get demo_host2 ''calc'' = Some 0"
    by (simp add: Get_def demo_host2_registry)
  have t: "hostFunctions demo_host4 ''GetSystemTime'' = Some demo_fn"
    by (simp add: demo_host4_def connectToPlugin_def Let_def demo_dial_def upd_def say_def
        demo_host3_def RegisterPlugin_def List_def demo_register_def spawn_def
        demo_host2_registry demo_host2_status demo_host2_id
        demo_host2_def StartPlugin_def startPluginProcess_def Get_def demo_os_def
        demo_host1_registry demo_host1_object demo_host1_def demo_host0_def demo_getInfo_def
        demo_info_def NewPluginHost_def RegisterHostFunction_def LoadPlugin_def Register_def)
  have A: "map_outcome fst (CallHostFunction demo_rpc 5000
          (demo_call ''GetSystemTime'' [''target_plugin_id'' \<mapsto> ''ghost'']) demo_host4)
       = Returns (\<lparr>cresp_Success = False, cresp_Message = msgTargetNotExist ''ghost'',
                   cresp_Result = None, cresp_ErrorCode = ''TARGET_PLUGIN_NOT_FOUND'',
                   cresp_RequestId = creq_RequestId
                      (demo_call ''GetSystemTime'' [''target_plugin_id'' \<mapsto> ''ghost''])\<rparr>, None)"
    using relay_not_host_table[OF m, of demo_rpc 5000 demo_host4 Map.empty] n by blast
  have B: "map_outcome fst (CallHostFunction demo_rpc 5000
          (demo_call ''GetSystemTime'' [''target_plugin_id'' \<mapsto> ''calc'']) demo_host2)
       = Returns (\<lparr>cresp_Success = False,
                   cresp_Message = msgTargetStatus ''calc'' (status_string (Status (objects demo_host2 0))),
                   cresp_Result = None, cresp_ErrorCode = ''TARGET_PLUGIN_NOT_RUNNING'',
                   cresp_RequestId = creq_RequestId
                      (demo_call ''GetSystemTime'' [''target_plugin_id'' \<mapsto> ''calc''])\<rparr>, None)"
    using relay_not_host_table[OF m2, of demo_rpc 5000 demo_host2 Map.empty] g demo_host2_status
    by auto
  from A B m n g t demo_host2_status show ?thesis
    by (simp add: demo_call_def)
qed

text \<open>
  Claim C2. On every host state that a run of steps reaches from a new host, a relayed
  call returns a response and a nil error: it neither panics nor fails to return. An
  unknown target, a target that is not running and a failed call of the target each
  give \<open>success = false\<close>, the code \<open>TARGET_PLUGIN_NOT_FOUND\<close>,
  \<open>TARGET_PLUGIN_NOT_RUNNING\<close> or \<open>INTER_PLUGIN_CALL_ERROR\<close>, and the request's
  own ID; what the target answers is returned as it is.
\<close>

theorem relay_always_structured:
  assumes reach: "run evs (NewPluginHost cfg f1 f2 f3) = Returns h"
    and target: "creq_Metadata req ''target_plugin_id'' = Some x"
  shows "(\<exists>resp h'. CallHostFunction rpc now req h = Returns ((resp, None), h'))
     \<and> (x \<notin> fst ` set (registry h) \<longrightarrow>
          map_outcome fst (CallHostFunction rpc now req h) =
            Returns (\<lparr>cresp_Success = False, cresp_Message = msgTargetNotExist x,
                      cresp_Result = None, cresp_ErrorCode = ''TARGET_PLUGIN_NOT_FOUND'',
                      cresp_RequestId = creq_RequestId req\<rparr>, None))
     \<and> (\<forall>a. Get h x = Some a \<and> Status (objects h a) \<noteq> StatusRunning \<longrightarrow>
          map_outcome fst (CallHostFunction rpc now req h) =
            Returns (\<lparr>cresp_Success = False,
                      cresp_Message = msgTargetStatus x (status_string (Status (objects h a))),
                      cresp_Result = None, cresp_ErrorCode = ''TARGET_PLUGIN_NOT_RUNNING'',
                      cresp_RequestId = creq_RequestId req\<rparr>, None))
     \<and> (\<forall>a c err. Get h x = Some a \<and> Status (objects h a) = StatusRunning
            \<and> Client (objects h a) = Some c
            \<and> rpc c (enhancedReq now req (sourceOf req) x) = Inl err \<longrightarrow>
          map_outcome fst (CallHostFunction rpc now req h) =
            Returns (\<lparr>cresp_Success = False, cresp_Message = msgInterPluginFailed err,
                      cresp_Result = None, cresp_ErrorCode = ''INTER_PLUGIN_CALL_ERROR'',
                      cresp_RequestId = creq_RequestId req\<rparr>, None))
     \<and> (\<forall>a c resp. Get h x = Some a \<and> Status (objects h a) = StatusRunning
            \<and> Client (objects h a) = Some c
            \<and> rpc c (enhancedReq now req (sourceOf req) x) = Inr resp \<longrightarrow>
          map_outcome fst (CallHostFunction rpc now req h) = Returns (resp, None))"
proof -
  have inv: "conn_inv h"
    using conn_inv_run[OF conn_inv_NewPluginHost reach] .
  have eq: "CallHostFunction rpc now req h = callPluginFunction rpc now req x h"
    using target by (simp add: CallHostFunction_def)
  show ?thesis
    unfolding eq
    using relay_returns[OF inv, of rpc now req x]
    by (auto simp: callPluginFunction_not_found callPluginFunction_not_running
        callPluginFunction_running Get_None_iff[symmetric])
qed

theorem relay_always_structured_witness:
  "run demo_events (NewPluginHost None demo_fn demo_fn demo_fn) = Returns demo_host4
   \<and> creq_Metadata (demo_call ''Add'' [''target_plugin_id'' \<mapsto> ''calc'']) ''target_plugin_id''
        = Some ''calc''
   \<and> Get demo_host4 ''calc'' = Some 0
   \<and> Status (objects demo_host4 0) = StatusRunning
   \<and> demo_rpc (NewPluginServiceClient (Conn 7 Ready))
        (enhancedReq 5000 (demo_call ''Add'' [''target_plugin_id'' \<mapsto> ''calc'']) [] ''calc'')
        = Inl ''deadline exceeded''
   \<and> map_outcome fst (CallHostFunction demo_rpc 5000
          (demo_call ''Add'' [''target_plugin_id'' \<mapsto> ''calc'']) demo_host4)
       = Returns (\<lparr>cresp_Success = False, cresp_Message = msgInterPluginFailed ''deadline exceeded'',
                   cresp_Result = None, cresp_ErrorCode = ''INTER_PLUGIN_CALL_ERROR'',
                   cresp_RequestId = ''req-7''\<rparr>, None)"
proof -
  let ?req = "demo_call ''Add'' [''target_plugin_id'' \<mapsto> ''calc'']"
  have r: "run demo_events (NewPluginHost None demo_fn demo_fn demo_fn) = Returns demo_host4"
    using demo_run by (simp add: demo_host0_def)
  have m: "creq_Metadata ?req ''target_plugin_id'' = Some ''calc''"
    by (simp add: demo_call_def)
  have g: "Get demo_host4 ''calc'' = Some 0"
    by (simp add: Get_def demo_host4_registry)
  have s: "sourceOf ?req = []"
    by (simp add: sourceOf_def demo_call_def)
  have e: "demo_rpc (NewPluginServiceClient (Conn 7 Ready)) (enhancedReq 5000 ?req (sourceOf ?req) ''calc'')
             = Inl ''deadline exceeded''"
    by (simp add: demo_rpc_def enhancedReq_def demo_call_def)
  have A: "map_outcome fst (CallHostFunction demo_rpc 5000 ?req demo_host4)
       = Returns (\<lparr>cresp_Success = False, cresp_Message = msgInterPluginFailed ''deadline exceeded'',
                   cresp_Result = None, cresp_ErrorCode = ''INTER_PLUGIN_CALL_ERROR'',
                   cresp_RequestId = creq_RequestId ?req\<rparr>, None)"
    using relay_always_structured[OF r m, of demo_rpc 5000] g demo_host4_running demo_host4_client e
    by blast
  from A r m g e s demo_host4_running show ?thesis
    by (simp add: demo_call_def)
qed

text \<open>
  Claim C6. The plugin's inbound call handler: a name that the function map does not
  hold gives \<open>success = false\<close> and \<open>FUNCTION_NOT_FOUND\<close>; a function that returns
  an error gives \<open>success = false\<close>, \<open>FUNCTION_ERROR\<close> and the error's text as the
  message; a function that succeeds gives \<open>success = true\<close> and its returned
  parameter as the result. The response always carries the request's ID, and the
  handler's own error is nil.
\<close>

theorem plugin_call_handler:
  "(plugin_functions p (creq_FunctionName req) = None \<longrightarrow>
      fst (Plugin_CallPluginFunction req p) =
        (\<lparr>cresp_Success = False, cresp_Message = msgFunctionNotFound (creq_FunctionName req),
          cresp_Result = None, cresp_ErrorCode = ''FUNCTION_NOT_FOUND'',
          cresp_RequestId = creq_RequestId req\<rparr>, None))
   \<and> (\<forall>fn err. plugin_functions p (creq_FunctionName req) = Some fn
          \<and> fn (creq_Parameters req) = Inl err \<longrightarrow>
        fst (Plugin_CallPluginFunction req p) =
          (\<lparr>cresp_Success = False, cresp_Message = err, cresp_Result = None,
            cresp_ErrorCode = ''FUNCTION_ERROR'', cresp_RequestId = creq_RequestId req\<rparr>, None))
   \<and> (\<forall>fn result. plugin_functions p (creq_FunctionName req) = Some fn
          \<and> fn (creq_Parameters req) = Inr result \<longrightarrow>
        fst (Plugin_CallPluginFunction req p) =
          (\<lparr>cresp_Success = True, cresp_Message = msgCallOk, cresp_Result = result,
            cresp_ErrorCode = [], cresp_RequestId = creq_RequestId req\<rparr>, None))
   \<and> cresp_RequestId (fst (fst (Plugin_CallPluginFunction req p))) = creq_RequestId req"
  by (simp add: Plugin_CallPluginFunction_def plugin_say_def Let_def split: option.split sum.split)

theorem plugin_call_handler_witness:
  "plugin_functions demo_plugin ''Nope'' = None
   \<and> cresp_ErrorCode (fst (fst (Plugin_CallPluginFunction (demo_call ''Nope'' Map.empty) demo_plugin)))
        = ''FUNCTION_NOT_FOUND''
   \<and> cresp_Message (fst (fst (Plugin_CallPluginFunction (demo_call ''Fail'' Map.empty) demo_plugin)))
        = ''boom''
   \<and> cresp_ErrorCode (fst (fst (Plugin_CallPluginFunction (demo_call ''Fail'' Map.empty) demo_plugin)))
        = ''FUNCTION_ERROR''
   \<and> cresp_Success (fst (fst (Plugin_CallPluginFunction (demo_call ''Echo'' Map.empty) demo_plugin)))
   \<and> cresp_Result (fst (fst (Plugin_CallPluginFunction (demo_call ''Echo'' Map.empty) demo_plugin)))
        = Some demo_param
   \<and> cresp_RequestId (fst (fst (Plugin_CallPluginFunction (demo_call ''Echo'' Map.empty) demo_plugin)))
        = ''req-7''"
proof -
  have n: "plugin_functions demo_plugin (creq_FunctionName (demo_call ''Nope'' Map.empty)) = None"
    by (simp add: demo_plugin_def demo_call_def)
  have f: "plugin_functions demo_plugin (creq_FunctionName (demo_call ''Fail'' Map.empty))
             = Some (\<lambda>ps. Inl ''boom'')"
    by (simp add: demo_plugin_def demo_call_def)
  have e: "plugin_functions demo_plugin (creq_FunctionName (demo_call ''Echo'' Map.empty))
             = Some (\<lambda>ps. Inr (case ps of [] \<Rightarrow> None | p # _ \<Rightarrow> Some p))"
    by (simp add: demo_plugin_def demo_call_def)
  show ?thesis
    using plugin_call_handler[of demo_plugin "demo_call ''Nope'' Map.empty"]
      plugin_call_handler[of demo_plugin "demo_call ''Fail'' Map.empty"]
      plugin_call_handler[of demo_plugin "demo_call ''Echo'' Map.empty"] n f e
    by (simp add: demo_call_def)
qed

text \<open>
  Claim C7. \<open>StartPlugin\<close> on an ID the registry does not hold, or on a record that
  is running, returns an error and leaves the whole host state as it was: no command is
  started, the registry still maps the ID to the same record, and the record, its process
  handle included, is unchanged.
\<close>

theorem start_plugin_refused:
  "(pluginID \<notin> fst ` set (registry h) \<longrightarrow>
      StartPlugin os now pluginID h = (Some (errNotExist pluginID), h))
   \<and> (\<forall>a. Get h pluginID = Some a \<and> Status (objects h a) = StatusRunning \<longrightarrow>
         StartPlugin os now pluginID h = (Some (errAlreadyRunning pluginID), h))"
  by (simp add: StartPlugin_def Get_None_iff[symmetric])

theorem start_plugin_refused_witness:
  "''ghost'' \<notin> fst ` set (registry demo_host4)
   \<and> StartPlugin demo_os 5000 ''ghost'' demo_host4 = (Some (errNotExist ''ghost''), demo_host4)
   \<and> Get demo_host4 ''calc'' = Some 0
   \<and> Status (objects demo_host4 0) = StatusRunning
   \<and> StartPlugin demo_os 5000 ''calc'' demo_host4 = (Some (errAlreadyRunning ''calc''), demo_host4)"
proof -
  have n: "''ghost'' \<notin> fst ` set (registry demo_host4)"
    by (simp add: demo_host4_registry)
  have g: "Get demo_host4 ''calc'' = Some 0"
    by (simp add: Get_def demo_host4_registry)
  show ?thesis
    using start_plugin_refused[of "''ghost''" demo_host4 demo_os 5000]
      start_plugin_refused[of "''calc''" demo_host4 demo_os 5000] n g demo_host4_running
    by simp
qed

text \<open>
  Claim C8. For an ID that the registry does not hold, \<open>Get\<close> finds nothing,
  \<open>StopPlugin\<close> returns the error "plugin ... does not exist" and leaves the host
  state as it was, and \<open>CallPluginFunction\<close>, which writes nothing, returns the same
  error. Neither path reaches a dereference, so the embedding has no panic here.
\<close>

theorem unknown_id:
  "pluginID \<notin> fst ` set (registry h) \<Longrightarrow>
     Get h pluginID = None
     \<and> StopPlugin kill pluginID h = (Some (errNotExist pluginID), h)
     \<and> CallPluginFunction rpc now pluginID functionName params h = Inl (errNotExist pluginID)"
  by (simp add: StopPlugin_def CallPluginFunction_def Get_None_iff[symmetric])

theorem unknown_id_witness:
  "''ghost'' \<notin> fst ` set (registry demo_host4)
   \<and> Get demo_host4 ''ghost'' = None
   \<and> StopPlugin (\<lambda>pr. None) ''ghost'' demo_host4 = (Some (errNotExist ''ghost''), demo_host4)
   \<and> CallPluginFunction demo_rpc 5000 ''ghost'' ''Add'' [demo_param] demo_host4
        = Inl (errNotExist ''ghost'')"
proof -
  have n: "''ghost'' \<notin> fst ` set (registry demo_host4)"
    by (simp add: demo_host4_registry)
  from unknown_id[OF n] n show ?thesis by simp
qed

text \<open>
  Claim C10. The \<open>Heartbeat\<close> handler answers \<open>success = true\<close> with the server's
  time in seconds and a nil error, for every request. For a registered ID the new state
  is the old one with \<open>LastHeartbeat\<close> of that one record set to the clock's reading;
  for an ID the registry does not hold the state is unchanged.
\<close>

theorem heartbeat_frame:
  "fst (Heartbeat req now h) =
     (\<lparr>hresp_Success = True, hresp_Message = msgHeartbeatOk, hresp_ServerTimestamp = Unix now\<rparr>, None)
   \<and> (\<forall>a. Get h (hreq_PluginId req) = Some a \<longrightarrow>
         snd (Heartbeat req now h) =
           h\<lparr>objects := (objects h)(a := (objects h a)\<lparr>LastHeartbeat := now\<rparr>)\<rparr>)
   \<and> (hreq_PluginId req \<notin> fst ` set (registry h) \<longrightarrow> snd (Heartbeat req now h) = h)"
  by (auto simp add: Heartbeat_def upd_def Let_def Get_None_iff[symmetric] split: option.split)

theorem heartbeat_frame_witness:
  "Get demo_host4 ''calc'' = Some 0
   \<and> hresp_Success (fst (fst (Heartbeat (demo_heartbeat ''calc'') 5000 demo_host4)))
   \<and> LastHeartbeat (objects (snd (Heartbeat (demo_heartbeat ''calc'') 5000 demo_host4)) 0) = 5000
   \<and> Status (objects (snd (Heartbeat (demo_heartbeat ''calc'') 5000 demo_host4)) 0) = StatusRunning
   \<and> registry (snd (Heartbeat (demo_heartbeat ''calc'') 5000 demo_host4)) = [(''calc'', 0)]
   \<and> ''ghost'' \<notin> fst ` set (registry demo_host4)
   \<and> hresp_Success (fst (fst (Heartbeat (demo_heartbeat ''ghost'') 5000 demo_host4)))
   \<and> snd (Heartbeat (demo_heartbeat ''ghost'') 5000 demo_host4) = demo_host4"
proof -
  have g: "Get demo_host4 (hreq_PluginId (demo_heartbeat ''calc'')) = Some 0"
    by (simp add: Get_def demo_host4_registry demo_heartbeat_def)
  have n: "hreq_PluginId (demo_heartbeat ''ghost'') \<notin> fst ` set (registry demo_host4)"
    by (simp add: demo_host4_registry demo_heartbeat_def)
  show ?thesis
    using heartbeat_frame[of "demo_heartbeat ''calc''" 5000 demo_host4]
      heartbeat_frame[of "demo_heartbeat ''ghost''" 5000 demo_host4] g n
    by (simp add: demo_heartbeat_def demo_host4_registry demo_host4_running)
qed









text \<open>
  Claim C9. With a \<open>PortRange\<close> of two entries whose upper end is below the greatest
  \<open>int\<close>, the host binds the first port of the range that \<open>net.Listen\<close> accepts,
  trying the ports in ascending order (the one port \<open>Port\<close> when it is positive), and
  returns the error "cannot find an available port" with the range it tried when none
  accepts: lemmas \<open>startGrpcServer_range\<close> and \<open>Start_single_port_busy\<close>. But
  \<open>startGrpcServer\<close> reads both entries of \<open>PortRange\<close> before it looks at \<open>Port\<close>:
  with the configuration of the README's quick start, which sets \<open>Port\<close> and leaves
  \<open>PortRange\<close> nil, \<open>Start\<close> panics whatever \<open>net.Listen\<close> would have answered, and
  port 50051 is never tried.
\<close>

theorem Start_panics_without_PortRange:
  "Start listen (NewPluginHost (Some readme_config) f1 f2 f3) = Panics"
  by (simp add: Start_def startGrpcServer_def readme_config_def say_def)

end
